theory Spec2Isabelle
  imports Main
begin

section \<open>Values of the two input documents\<close>

text \<open>
  \<open>json.load\<close> yields \<open>None\<close>, \<open>bool\<close>, \<open>int\<close>, \<open>float\<close>, \<open>str\<close>, \<open>list\<close> and \<open>dict\<close> objects;
  the keys of a \<open>dict\<close> that comes from a document are strings and keep their document
  order. Python's \<open>int\<close> is unbounded. A string is a list of characters of Isabelle's 8-bit
  \<open>char\<close>; documents with characters beyond that range are not covered. The type \<open>'f\<close>
  stands for Python's \<open>float\<close>: its arithmetic is not defined here but taken as a parameter
  (see \<open>pyenv\<close> below), so that every theorem holds for whatever the float operations
  compute.
\<close>

datatype 'f json =
    VNone
  | VBool bool
  | VInt int
  | VFloat 'f
  | VStr string
  | VList "'f json list"
  | VDict "(string \<times> 'f json) list"

text \<open>A Python number as the running totals hold it: the \<open>int\<close> they start from, or a \<open>float\<close>.\<close>

datatype 'f pynum = NInt int | NFloat 'f

text \<open>The exceptions that the operations used by the program can raise.\<close>

datatype py_error =
    AttributeError
  | TypeError
  | ValueError
  | OverflowError
  | IndexError
  | KeyError

text \<open>
  The services of the Python runtime that the model takes as given:
  \<^item> \<open>f_of_int\<close>: the float nearest to an \<open>int\<close> within the range of float;
  \<^item> \<open>f_of_str\<close>: \<open>float(s)\<close> on a string; \<open>None\<close> is \<open>ValueError\<close>;
  \<^item> \<open>f_add\<close>, \<open>f_sub\<close>, \<open>f_mul\<close>: float arithmetic (it never raises);
  \<^item> \<open>f_nonzero\<close>: truth value of a float; \<open>f_eq\<close>, \<open>f_eq_int\<close>: \<open>==\<close> between two floats
    and between a float and an int;
  \<^item> \<open>f_repr\<close>: \<open>str\<close> of a float; \<open>f_fixed d\<close>: the format \<open>.df\<close> of a float;
  \<^item> \<open>s_repr\<close>: \<open>repr\<close> of a string (quoting and escaping).
\<close>

record 'f pyenv =
  f_of_int :: "int \<Rightarrow> 'f"
  f_of_str :: "string \<Rightarrow> 'f option"
  f_add :: "'f \<Rightarrow> 'f \<Rightarrow> 'f"
  f_sub :: "'f \<Rightarrow> 'f \<Rightarrow> 'f"
  f_mul :: "'f \<Rightarrow> 'f \<Rightarrow> 'f"
  f_nonzero :: "'f \<Rightarrow> bool"
  f_eq :: "'f \<Rightarrow> 'f \<Rightarrow> bool"
  f_eq_int :: "'f \<Rightarrow> int \<Rightarrow> bool"
  f_repr :: "'f \<Rightarrow> string"
  f_fixed :: "nat \<Rightarrow> 'f \<Rightarrow> string"
  s_repr :: "string \<Rightarrow> string"

section \<open>Python operations on these values\<close>

text \<open>\<open>sep.join(xs)\<close>.\<close>

fun join_str :: "string \<Rightarrow> string list \<Rightarrow> string" where
  "join_str sep [] = []"
| "join_str sep [x] = x"
| "join_str sep (x # y # ys) = x @ sep @ join_str sep (y # ys)"

text \<open>\<open>str\<close> of an \<open>int\<close>: its decimal digits, with a minus sign when negative.\<close>

fun str_nat :: "nat \<Rightarrow> string" where
  "str_nat n =
     (if n < 10 then [''0123456789'' ! n]
      else str_nat (n div 10) @ [''0123456789'' ! (n mod 10)])"

declare str_nat.simps [simp del]

definition str_int :: "int \<Rightarrow> string" where
  "str_int i = (if i < 0 then CHR ''-'' # str_nat (nat (- i)) else str_nat (nat i))"

text \<open>
  \<open>repr(v)\<close> and \<open>str(v)\<close>, which an f-string field \<open>{v}\<close> uses. They differ on a string
  only: \<open>str\<close> is the string itself, \<open>repr\<close> quotes it; the elements of a list or dict are
  shown with \<open>repr\<close>.
\<close>

fun py_repr :: "'f pyenv \<Rightarrow> 'f json \<Rightarrow> string" where
  "py_repr E VNone = ''None''"
| "py_repr E (VBool b) = (if b then ''True'' else ''False'')"
| "py_repr E (VInt i) = str_int i"
| "py_repr E (VFloat x) = f_repr E x"
| "py_repr E (VStr s) = s_repr E s"
| "py_repr E (VList xs) = ''['' @ join_str '', '' (map (py_repr E) xs) @ '']''"
| "py_repr E (VDict kvs) =
     ''{'' @ join_str '', '' (map (\<lambda>kv. s_repr E (fst kv) @ '': '' @ py_repr E (snd kv)) kvs) @ ''}''"

definition py_str :: "'f pyenv \<Rightarrow> 'f json \<Rightarrow> string" where
  "py_str E v = (case v of VStr s \<Rightarrow> s | _ \<Rightarrow> py_repr E v)"

text \<open>Truth value: \<open>not v\<close> is its negation.\<close>

fun truthy :: "'f pyenv \<Rightarrow> 'f json \<Rightarrow> bool" where
  "truthy E VNone = False"
| "truthy E (VBool b) = b"
| "truthy E (VInt i) = (i \<noteq> 0)"
| "truthy E (VFloat x) = f_nonzero E x"
| "truthy E (VStr s) = (s \<noteq> [])"
| "truthy E (VList xs) = (xs \<noteq> [])"
| "truthy E (VDict kvs) = (kvs \<noteq> [])"

text \<open>\<open>d.get(k, default)\<close> on a dict \<open>d\<close>, and \<open>v.get(k, default)\<close> on any value: only a dict has
  the method.\<close>

definition dict_get :: "(string \<times> 'f json) list \<Rightarrow> string \<Rightarrow> 'f json \<Rightarrow> 'f json" where
  "dict_get d k dflt = (case map_of d k of Some v \<Rightarrow> v | None \<Rightarrow> dflt)"

definition py_get :: "'f json \<Rightarrow> string \<Rightarrow> 'f json \<Rightarrow> py_error + 'f json" where
  "py_get v k dflt = (case v of VDict d \<Rightarrow> Inr (dict_get d k dflt) | _ \<Rightarrow> Inl AttributeError)"

text \<open>
  The values that \<open>for item in v\<close> visits: the elements of a list, the keys of a dict, the
  characters of a string (each a string); any other value is not iterable.
\<close>

definition py_iter :: "'f json \<Rightarrow> py_error + 'f json list" where
  "py_iter v =
     (case v of
        VList xs \<Rightarrow> Inr xs
      | VDict kvs \<Rightarrow> Inr (map (\<lambda>kv. VStr (fst kv)) kvs)
      | VStr s \<Rightarrow> Inr (map (\<lambda>c. VStr [c]) s)
      | _ \<Rightarrow> Inl TypeError)"

text \<open>\<open>int\<close> of a \<open>bool\<close>, which is a subclass of \<open>int\<close>.\<close>

definition int_of_bool :: "bool \<Rightarrow> int" where
  "int_of_bool b = (if b then 1 else 0)"

text \<open>
  Conversion of an \<open>int\<close> to \<open>float\<close>, as \<open>float(i)\<close> and mixed arithmetic do it. A float is
  an IEEE 754 double: the conversion rounds to nearest, and raises \<open>OverflowError\<close> (``int
  too large to convert to float'') when the result would reach \<open>2 ^ 1024\<close>, that is from
  \<open>2 ^ 1024 - 2 ^ 970\<close> on.
\<close>

definition overflow_bound :: int where
  "overflow_bound = 2 ^ 1024 - 2 ^ 970"

definition float_of_int :: "'f pyenv \<Rightarrow> int \<Rightarrow> py_error + 'f" where
  "float_of_int E i =
     (if \<bar>i\<bar> < overflow_bound then Inr (f_of_int E i) else Inl OverflowError)"

text \<open>\<open>float(v)\<close>.\<close>

fun py_float :: "'f pyenv \<Rightarrow> 'f json \<Rightarrow> py_error + 'f" where
  "py_float E (VInt i) = float_of_int E i"
| "py_float E (VBool b) = float_of_int E (int_of_bool b)"
| "py_float E (VFloat x) = Inr x"
| "py_float E (VStr s) = (case f_of_str E s of None \<Rightarrow> Inl ValueError | Some x \<Rightarrow> Inr x)"
| "py_float E VNone = Inl TypeError"
| "py_float E (VList xs) = Inl TypeError"
| "py_float E (VDict kvs) = Inl TypeError"

text \<open>\<open>p * q\<close> for a float \<open>p\<close>: an int is converted to float first, a string, list, dict or
  \<open>None\<close> is a \<open>TypeError\<close>.\<close>

fun float_mul :: "'f pyenv \<Rightarrow> 'f \<Rightarrow> 'f json \<Rightarrow> py_error + 'f" where
  "float_mul E p (VInt i) =
     (case float_of_int E i of Inl e \<Rightarrow> Inl e | Inr y \<Rightarrow> Inr (f_mul E p y))"
| "float_mul E p (VBool b) =
     (case float_of_int E (int_of_bool b) of Inl e \<Rightarrow> Inl e | Inr y \<Rightarrow> Inr (f_mul E p y))"
| "float_mul E p (VFloat y) = Inr (f_mul E p y)"
| "float_mul E p (VStr s) = Inl TypeError"
| "float_mul E p VNone = Inl TypeError"
| "float_mul E p (VList xs) = Inl TypeError"
| "float_mul E p (VDict kvs) = Inl TypeError"

text \<open>\<open>a + b\<close> for numbers: int addition is exact, a mixed sum converts the int to float.\<close>

fun num_add :: "'f pyenv \<Rightarrow> 'f pynum \<Rightarrow> 'f pynum \<Rightarrow> py_error + 'f pynum" where
  "num_add E (NInt a) (NInt b) = Inr (NInt (a + b))"
| "num_add E (NInt a) (NFloat y) =
     (case float_of_int E a of Inl e \<Rightarrow> Inl e | Inr x \<Rightarrow> Inr (NFloat (f_add E x y)))"
| "num_add E (NFloat x) (NInt b) =
     (case float_of_int E b of Inl e \<Rightarrow> Inl e | Inr y \<Rightarrow> Inr (NFloat (f_add E x y)))"
| "num_add E (NFloat x) (NFloat y) = Inr (NFloat (f_add E x y))"

text \<open>
  \<open>a == b\<close>. \<open>None\<close> equals itself only; \<open>bool\<close>, \<open>int\<close> and \<open>float\<close> compare by numeric value
  (\<open>True == 1\<close>, \<open>1 == 1.0\<close>); strings and lists compare elementwise; two dicts are equal when
  they have the same keys with equal values; values of different kinds are unequal.
\<close>

fun py_eq :: "'f pyenv \<Rightarrow> 'f json \<Rightarrow> 'f json \<Rightarrow> bool" where
  "py_eq E VNone VNone = True"
| "py_eq E (VBool a) (VBool b) = (a = b)"
| "py_eq E (VBool a) (VInt b) = (int_of_bool a = b)"
| "py_eq E (VBool a) (VFloat y) = f_eq_int E y (int_of_bool a)"
| "py_eq E (VInt a) (VBool b) = (a = int_of_bool b)"
| "py_eq E (VInt a) (VInt b) = (a = b)"
| "py_eq E (VInt a) (VFloat y) = f_eq_int E y a"
| "py_eq E (VFloat x) (VBool b) = f_eq_int E x (int_of_bool b)"
| "py_eq E (VFloat x) (VInt b) = f_eq_int E x b"
| "py_eq E (VFloat x) (VFloat y) = f_eq E x y"
| "py_eq E (VStr s) (VStr t) = (s = t)"
| "py_eq E (VList xs) (VList ys) = list_all2 (py_eq E) xs ys"
| "py_eq E (VDict a) (VDict b) =
     (length a = length b \<and>
      list_all (\<lambda>kv. case map_of b (fst kv) of None \<Rightarrow> False | Some w \<Rightarrow> py_eq E (snd kv) w) a)"
| "py_eq E _ _ = False"

text \<open>Whether the string \<open>p\<close> occurs in the string \<open>s\<close>.\<close>

fun substring :: "string \<Rightarrow> string \<Rightarrow> bool" where
  "substring p [] = (p = [])"
| "substring p (c # s) = (take (length p) (c # s) = p \<or> substring p s)"

text \<open>
  \<open>x in c\<close>. In a dict the key is hashed first, and a list or dict is unhashable; the keys
  are strings, so only an equal string is found. In a list the elements are compared with
  \<open>==\<close>. In a string only a string can be looked for. Other values are not containers.
\<close>

fun py_contains :: "'f pyenv \<Rightarrow> 'f json \<Rightarrow> 'f json \<Rightarrow> py_error + bool" where
  "py_contains E (VDict d) (VList xs) = Inl TypeError"
| "py_contains E (VDict d) (VDict kvs) = Inl TypeError"
| "py_contains E (VDict d) (VStr s) = Inr (map_of d s \<noteq> None)"
| "py_contains E (VDict d) x = Inr False"
| "py_contains E (VList ys) x = Inr (list_ex (\<lambda>y. py_eq E y x) ys)"
| "py_contains E (VStr s) (VStr p) = Inr (substring p s)"
| "py_contains E c x = Inl TypeError"

text \<open>
  \<open>c[x]\<close>. A dict is indexed by key (\<open>KeyError\<close> when absent, \<open>TypeError\<close> for an unhashable
  key), a list by an \<open>int\<close> or \<open>bool\<close> (negative indices count from the end, \<open>IndexError\<close>
  out of range, \<open>TypeError\<close> for any other index) and a string likewise; other values are
  not subscriptable.
\<close>

definition seq_index :: "'a list \<Rightarrow> int \<Rightarrow> py_error + 'a" where
  "seq_index xs i =
     (if 0 \<le> i \<and> i < int (length xs) then Inr (xs ! nat i)
      else if i < 0 \<and> - int (length xs) \<le> i then Inr (xs ! nat (int (length xs) + i))
      else Inl IndexError)"

fun py_getitem :: "'f json \<Rightarrow> 'f json \<Rightarrow> py_error + 'f json" where
  "py_getitem (VDict d) (VList xs) = Inl TypeError"
| "py_getitem (VDict d) (VDict kvs) = Inl TypeError"
| "py_getitem (VDict d) (VStr s) = (case map_of d s of None \<Rightarrow> Inl KeyError | Some v \<Rightarrow> Inr v)"
| "py_getitem (VDict d) x = Inl KeyError"
| "py_getitem (VList ys) (VInt i) = seq_index ys i"
| "py_getitem (VList ys) (VBool b) = seq_index ys (int_of_bool b)"
| "py_getitem (VStr s) (VInt i) =
     (case seq_index s i of Inl e \<Rightarrow> Inl e | Inr c \<Rightarrow> Inr (VStr [c]))"
| "py_getitem (VStr s) (VBool b) =
     (case seq_index s (int_of_bool b) of Inl e \<Rightarrow> Inl e | Inr c \<Rightarrow> Inr (VStr [c]))"
| "py_getitem c x = Inl TypeError"

section \<open>The sale costing engine: \<open>compute_sale_cost\<close>\<close>

definition msg_invalid_item :: "'f pyenv \<Rightarrow> 'f json \<Rightarrow> string" where
  "msg_invalid_item E sale_id =
     ''Invalid item in sale '' @ py_str E sale_id @ '': Missing product name or quantity''"

definition msg_not_found :: "'f pyenv \<Rightarrow> 'f json \<Rightarrow> string" where
  "msg_not_found E product_name =
     ''Product '' @ [CHR 0x27] @ py_str E product_name @ [CHR 0x27] @ '' not found in price catalogue''"

definition msg_invalid_price :: "'f pyenv \<Rightarrow> 'f json \<Rightarrow> string" where
  "msg_invalid_price E product_name =
     ''Invalid price for product '' @ [CHR 0x27] @ py_str E product_name @ [CHR 0x27]
       @ '' in price catalogue''"

text \<open>
  The body of the \<open>try\<close> statement:
  \<^verbatim>\<open>price = float(price_catalogue[product_name]); total_cost += price * quantity\<close>.
  Its value is the new \<open>total_cost\<close>, or the exception raised.
\<close>

definition try_add_cost ::
  "'f pyenv \<Rightarrow> 'f json \<Rightarrow> 'f json \<Rightarrow> 'f json \<Rightarrow> 'f pynum \<Rightarrow> py_error + 'f pynum" where
  "try_add_cost E price_catalogue product_name quantity total_cost =
     (case py_getitem price_catalogue product_name of
        Inl e \<Rightarrow> Inl e
      | Inr entry \<Rightarrow>
          (case py_float E entry of
             Inl e \<Rightarrow> Inl e
           | Inr price \<Rightarrow>
               (case float_mul E price quantity of
                  Inl e \<Rightarrow> Inl e
                | Inr cost \<Rightarrow> num_add E total_cost (NFloat cost))))"

text \<open>\<open>except (ValueError, TypeError)\<close>: the exceptions the handler catches.\<close>

definition caught :: "py_error \<Rightarrow> bool" where
  "caught e = (e = ValueError \<or> e = TypeError)"

text \<open>
  One pass of the loop body on \<open>item\<close>, from the state \<open>(total_cost, errors)\<close> to the next
  one; \<open>Inl\<close> is an exception that leaves the function.
\<close>

definition cost_item ::
  "'f pyenv \<Rightarrow> 'f json \<Rightarrow> 'f json \<Rightarrow> 'f json \<Rightarrow> 'f pynum \<times> string list
     \<Rightarrow> py_error + 'f pynum \<times> string list" where
  "cost_item E sale price_catalogue item st =
     (case st of (total_cost, errors) \<Rightarrow>
     (case py_get item ''product'' VNone of
        Inl e \<Rightarrow> Inl e
      | Inr product_name \<Rightarrow>
     (case py_get item ''quantity'' (VInt 0) of
        Inl e \<Rightarrow> Inl e
      | Inr quantity \<Rightarrow>
     (if \<not> truthy E product_name \<or> \<not> truthy E quantity then
        (case py_get sale ''id'' (VStr ''Unknown'') of
           Inl e \<Rightarrow> Inl e
         | Inr sale_id \<Rightarrow> Inr (total_cost, errors @ [msg_invalid_item E sale_id]))
      else
     (case py_contains E price_catalogue product_name of
        Inl e \<Rightarrow> Inl e
      | Inr found \<Rightarrow>
     (if \<not> found then Inr (total_cost, errors @ [msg_not_found E product_name])
      else
     (case try_add_cost E price_catalogue product_name quantity total_cost of
        Inr total_cost' \<Rightarrow> Inr (total_cost', errors)
      | Inl e \<Rightarrow>
          (if caught e then Inr (total_cost, errors @ [msg_invalid_price E product_name])
           else Inl e))))))))"

text \<open>The \<open>for\<close> loop over the items.\<close>

fun cost_items ::
  "'f pyenv \<Rightarrow> 'f json \<Rightarrow> 'f json \<Rightarrow> 'f json list \<Rightarrow> 'f pynum \<times> string list
     \<Rightarrow> py_error + 'f pynum \<times> string list" where
  "cost_items E sale price_catalogue [] st = Inr st"
| "cost_items E sale price_catalogue (item # rest) st =
     (case cost_item E sale price_catalogue item st of
        Inl e \<Rightarrow> Inl e
      | Inr st' \<Rightarrow> cost_items E sale price_catalogue rest st')"

definition compute_sale_cost ::
  "'f pyenv \<Rightarrow> 'f json \<Rightarrow> 'f json \<Rightarrow> py_error + 'f pynum \<times> string list" where
  "compute_sale_cost E sale price_catalogue =
     (case py_get sale ''items'' (VList []) of
        Inl e \<Rightarrow> Inl e
      | Inr its \<Rightarrow>
          (case py_iter its of
             Inl e \<Rightarrow> Inl e
           | Inr items \<Rightarrow> cost_items E sale price_catalogue items (NInt 0, [])))"

section \<open>The aggregation loop, the report and \<open>main\<close>\<close>

text \<open>
  The loop of \<open>main\<close> over the sales: \<open>total_cost += sale_cost\<close> and
  \<open>all_errors.extend(errors)\<close>, from the state \<open>(total_cost, all_errors)\<close>.
\<close>

fun cost_sales ::
  "'f pyenv \<Rightarrow> 'f json \<Rightarrow> 'f json list \<Rightarrow> 'f pynum \<times> string list
     \<Rightarrow> py_error + 'f pynum \<times> string list" where
  "cost_sales E price_catalogue [] st = Inr st"
| "cost_sales E price_catalogue (sale # rest) st =
     (case compute_sale_cost E sale price_catalogue of
        Inl e \<Rightarrow> Inl e
      | Inr r \<Rightarrow>
          (case num_add E (fst st) (fst r) of
             Inl e \<Rightarrow> Inl e
           | Inr total_cost' \<Rightarrow>
               cost_sales E price_catalogue rest (total_cost', snd st @ snd r)))"

text \<open>The format \<open>{n:.df}\<close> of a number; an \<open>int\<close> is converted to float first.\<close>

definition fmt_fixed :: "'f pyenv \<Rightarrow> nat \<Rightarrow> 'f pynum \<Rightarrow> py_error + string" where
  "fmt_fixed E d n =
     (case n of
        NFloat x \<Rightarrow> Inr (f_fixed E d x)
      | NInt i \<Rightarrow> (case float_of_int E i of Inl e \<Rightarrow> Inl e | Inr x \<Rightarrow> Inr (f_fixed E d x)))"

definition newline :: string where
  "newline = [CHR 0x0A]"

text \<open>The list \<open>results\<close> that \<open>write_results\<close> builds.\<close>

definition results_lines ::
  "'f pyenv \<Rightarrow> 'f pynum \<Rightarrow> 'f pynum \<Rightarrow> string list \<Rightarrow> py_error + string list" where
  "results_lines E total_cost execution_time errors =
     (case fmt_fixed E 2 total_cost of
        Inl e \<Rightarrow> Inl e
      | Inr tc \<Rightarrow>
          (case fmt_fixed E 3 execution_time of
             Inl e \<Rightarrow> Inl e
           | Inr et \<Rightarrow>
               Inr (if errors \<noteq> [] then
                      [''=== Sales Computation Results ==='',
                       ''Total Cost: $'' @ tc,
                       ''Execution Time: '' @ et @ '' seconds'',
                       newline @ ''Errors encountered during execution:''] @ errors
                    else
                      [''=== Sales Computation Results ==='',
                       ''Total Cost: $'' @ tc,
                       ''Execution Time: '' @ et @ '' seconds'',
                       newline @ ''No errors encountered during execution.''])))"

text \<open>
  The program's effects are kept in a \<open>world\<close>: the texts given to \<open>print\<close>, in order (each
  is followed by a line end on the terminal), and the files by name.
\<close>

record world =
  stdout :: "string list"
  files :: "string \<Rightarrow> string option"

text \<open>How a run ends: by returning, by \<open>sys.exit(n)\<close>, or by an exception nobody catches.\<close>

datatype ending = Returned | SysExit int | Uncaught py_error

definition print :: "string \<Rightarrow> world \<Rightarrow> world" where
  "print text w = w\<lparr>stdout := stdout w @ [text]\<rparr>"

definition write_file :: "string \<Rightarrow> string \<Rightarrow> world \<Rightarrow> world" where
  "write_file name text w = w\<lparr>files := (files w)(name \<mapsto> text)\<rparr>"

definition write_results ::
  "'f pyenv \<Rightarrow> 'f pynum \<Rightarrow> 'f pynum \<Rightarrow> string list \<Rightarrow> world \<Rightarrow> py_error + world" where
  "write_results E total_cost execution_time errors w =
     (case results_lines E total_cost execution_time errors of
        Inl e \<Rightarrow> Inl e
      | Inr results \<Rightarrow>
          Inr (write_file ''SalesResults.txt'' (join_str newline results)
                 (print (join_str newline results) w)))"

text \<open>
  \<open>load_json_file\<close>: the parsed document, or (\<open>Inl\<close>) the world after the diagnostic has been
  printed, on the way to \<open>sys.exit(1)\<close>. The parser \<open>json_loads\<close> is a parameter: it gives
  the value of a text, or the description \<open>str(e)\<close> of the \<open>JSONDecodeError\<close>.
\<close>

definition load_json_file ::
  "(string \<Rightarrow> string + 'f json) \<Rightarrow> string \<Rightarrow> world \<Rightarrow> world + 'f json" where
  "load_json_file json_loads filename w =
     (case files w filename of
        None \<Rightarrow>
          Inl (print (''Error: File '' @ [CHR 0x27] @ filename @ [CHR 0x27] @ '' not found'') w)
      | Some text \<Rightarrow>
          (case json_loads text of
             Inl msg \<Rightarrow>
               Inl (print (''Error: Invalid JSON in file '' @ [CHR 0x27] @ filename @ [CHR 0x27]
                            @ '': '' @ msg) w)
           | Inr v \<Rightarrow> Inr v))"

text \<open>
  \<open>main\<close>, on the argument vector \<open>argv\<close> (\<open>sys.argv\<close>, the script's name first). The two
  readings of the clock, \<open>start_time\<close> and the later one, are inputs of the run.
\<close>

definition main ::
  "'f pyenv \<Rightarrow> (string \<Rightarrow> string + 'f json) \<Rightarrow> 'f \<Rightarrow> 'f \<Rightarrow> string list \<Rightarrow> world
     \<Rightarrow> ending \<times> world" where
  "main E json_loads start_time end_time argv w =
     (if length argv \<noteq> 3 then
        (SysExit 1,
         print ''Usage: python computeSales.py priceCatalogue.json salesRecord.json'' w)
      else
     (case load_json_file json_loads (argv ! 1) w of
        Inl w' \<Rightarrow> (SysExit 1, w')
      | Inr price_catalogue \<Rightarrow>
     (case load_json_file json_loads (argv ! 2) w of
        Inl w' \<Rightarrow> (SysExit 1, w')
      | Inr sales_record \<Rightarrow>
     (case sales_record of
        VList sales \<Rightarrow>
          (case cost_sales E price_catalogue sales (NInt 0, []) of
             Inl e \<Rightarrow> (Uncaught e, w)
           | Inr r \<Rightarrow>
               (case write_results E (fst r) (NFloat (f_sub E end_time start_time)) (snd r) w of
                  Inl e \<Rightarrow> (Uncaught e, w)
                | Inr w' \<Rightarrow> (Returned, w')))
      | _ \<Rightarrow> (SysExit 1, print ''Error: Sales record must be a list of sales'' w)))))"

section \<open>An exact decimal interpretation of the float parameters\<close>

text \<open>
  To run the definitions on concrete documents the float parameters are interpreted by exact
  decimal fractions: \<open>(m, e)\<close> stands for \<open>m / 10 ^ e\<close>. Sums and products are exact, so the
  interpretation agrees with binary floating point as long as every number involved is an
  integer below \<open>2 ^ 53\<close> in magnitude, or a fraction with a small power of two as its
  denominator. \<open>dec_of_str\<close> reads plain decimal numerals only (an optional sign, digits,
  an optional point), \<open>dec_repr\<close> writes no exponent and \<open>quote_str\<close> does no escaping.
\<close>

type_synonym dec = "int \<times> nat"

definition dec_of_int :: "int \<Rightarrow> dec" where
  "dec_of_int i = (i, 0)"

definition dec_add :: "dec \<Rightarrow> dec \<Rightarrow> dec" where
  "dec_add a b = (fst a * 10 ^ snd b + fst b * 10 ^ snd a, snd a + snd b)"

definition dec_sub :: "dec \<Rightarrow> dec \<Rightarrow> dec" where
  "dec_sub a b = (fst a * 10 ^ snd b - fst b * 10 ^ snd a, snd a + snd b)"

definition dec_mul :: "dec \<Rightarrow> dec \<Rightarrow> dec" where
  "dec_mul a b = (fst a * fst b, snd a + snd b)"

definition dec_nonzero :: "dec \<Rightarrow> bool" where
  "dec_nonzero a = (fst a \<noteq> 0)"

definition dec_eq :: "dec \<Rightarrow> dec \<Rightarrow> bool" where
  "dec_eq a b = (fst a * 10 ^ snd b = fst b * 10 ^ snd a)"

definition dec_eq_int :: "dec \<Rightarrow> int \<Rightarrow> bool" where
  "dec_eq_int a i = (fst a = i * 10 ^ snd a)"

definition digit_val :: "char \<Rightarrow> nat option" where
  "digit_val c =
     (if c \<in> set ''0123456789'' then Some (of_char c - 48) else None)"

text \<open>The value of a string of digits, from the accumulator \<open>acc\<close>.\<close>

fun digits_val :: "nat \<Rightarrow> string \<Rightarrow> nat option" where
  "digits_val acc [] = Some acc"
| "digits_val acc (c # cs) =
     (case digit_val c of None \<Rightarrow> None | Some d \<Rightarrow> digits_val (10 * acc + d) cs)"

definition dec_of_unsigned :: "string \<Rightarrow> dec option" where
  "dec_of_unsigned s =
     (let ip = takeWhile (\<lambda>c. c \<noteq> CHR ''.'') s;
          fp = drop 1 (dropWhile (\<lambda>c. c \<noteq> CHR ''.'') s)
      in if ip = [] \<and> fp = [] then None
         else (case digits_val 0 (ip @ fp) of
                 None \<Rightarrow> None
               | Some n \<Rightarrow> Some (int n, length fp)))"

definition dec_of_str :: "string \<Rightarrow> dec option" where
  "dec_of_str s =
     (case s of
        [] \<Rightarrow> None
      | c # cs \<Rightarrow>
          (if c = CHR ''-'' then
             (case dec_of_unsigned cs of None \<Rightarrow> None | Some a \<Rightarrow> Some (- fst a, snd a))
           else if c = CHR ''+'' then dec_of_unsigned cs
           else dec_of_unsigned s))"

definition pad_zeros :: "nat \<Rightarrow> string \<Rightarrow> string" where
  "pad_zeros d s = replicate (d - length s) CHR ''0'' @ s"

text \<open>The quotient \<open>n / D\<close> rounded to an integer, half to even.\<close>

definition round_half_even :: "nat \<Rightarrow> nat \<Rightarrow> nat" where
  "round_half_even n D =
     (if 2 * (n mod D) > D \<or> (2 * (n mod D) = D \<and> odd (n div D)) then n div D + 1
      else n div D)"

text \<open>The digits of \<open>q / 10 ^ d\<close>, with \<open>d\<close> of them after the point.\<close>

definition fixed_digits :: "nat \<Rightarrow> nat \<Rightarrow> string" where
  "fixed_digits d q =
     str_nat (q div 10 ^ d)
     @ (if d = 0 then [] else CHR ''.'' # pad_zeros d (str_nat (q mod 10 ^ d)))"

text \<open>\<open>d\<close> digits after the point, rounded half to even.\<close>

definition dec_fixed :: "nat \<Rightarrow> dec \<Rightarrow> string" where
  "dec_fixed d a =
     (if fst a < 0 then [CHR ''-''] else [])
     @ fixed_digits d (round_half_even (nat \<bar>fst a\<bar> * 10 ^ d) (10 ^ snd a))"

fun dec_norm :: "dec \<Rightarrow> dec" where
  "dec_norm (m, e) =
     (if e = 0 then (m * 10, 1)
      else if e > 1 \<and> m mod 10 = 0 then dec_norm (m div 10, e - 1)
      else (m, e))"

declare dec_norm.simps [simp del]

definition dec_repr :: "dec \<Rightarrow> string" where
  "dec_repr a = dec_fixed (snd (dec_norm a)) (dec_norm a)"

definition quote_str :: "string \<Rightarrow> string" where
  "quote_str s = [CHR 0x27] @ s @ [CHR 0x27]"

definition dec_env :: "dec pyenv" where
  "dec_env =
     \<lparr>f_of_int = dec_of_int, f_of_str = dec_of_str, f_add = dec_add, f_sub = dec_sub,
      f_mul = dec_mul, f_nonzero = dec_nonzero, f_eq = dec_eq, f_eq_int = dec_eq_int,
      f_repr = dec_repr, f_fixed = dec_fixed, s_repr = quote_str\<rparr>"

section \<open>The costing engine on a store of objects\<close>

text \<open>
  To speak of what \<open>compute_sale_cost\<close> leaves unchanged, the function is also modelled on a
  store. The arguments are references to objects in a heap; the heap holds a value per
  address and \<open>next_free\<close> is the first address not yet in use. The state also carries the
  world that \<open>print\<close> and file output would change. The statement \<open>errors = []\<close> allocates a
  list, \<open>errors.append(m)\<close> updates the object at that address, and the function returns
  the total together with the reference to the list. \<open>total_cost\<close> is a local variable that
  holds a number. Everything else in the body reads the arguments.
\<close>

record 'f pstate =
  heap :: "nat \<Rightarrow> 'f json"
  next_free :: nat
  io :: world

definition alloc :: "'f json \<Rightarrow> 'f pstate \<Rightarrow> nat \<times> 'f pstate" where
  "alloc v s =
     (next_free s, s\<lparr>heap := (heap s)(next_free s := v), next_free := Suc (next_free s)\<rparr>)"

text \<open>
  \<open>xs.append(v)\<close> on the list object at address \<open>r\<close>. The function calls it on the list it
  has allocated only; an object that is not a list has no such method and is left as it is.
\<close>

definition list_append :: "nat \<Rightarrow> 'f json \<Rightarrow> 'f pstate \<Rightarrow> 'f pstate" where
  "list_append r v s =
     s\<lparr>heap := (heap s)(r := (case heap s r of VList xs \<Rightarrow> VList (xs @ [v]) | other \<Rightarrow> other))\<rparr>"

definition cost_item_st ::
  "'f pyenv \<Rightarrow> nat \<Rightarrow> nat \<Rightarrow> nat \<Rightarrow> 'f json \<Rightarrow> 'f pynum \<Rightarrow> 'f pstate
     \<Rightarrow> (py_error + 'f pynum) \<times> 'f pstate" where
  "cost_item_st E sale price_catalogue errors item total_cost s =
     (case py_get item ''product'' VNone of
        Inl e \<Rightarrow> (Inl e, s)
      | Inr product_name \<Rightarrow>
     (case py_get item ''quantity'' (VInt 0) of
        Inl e \<Rightarrow> (Inl e, s)
      | Inr quantity \<Rightarrow>
     (if \<not> truthy E product_name \<or> \<not> truthy E quantity then
        (case py_get (heap s sale) ''id'' (VStr ''Unknown'') of
           Inl e \<Rightarrow> (Inl e, s)
         | Inr sale_id \<Rightarrow>
             (Inr total_cost, list_append errors (VStr (msg_invalid_item E sale_id)) s))
      else
     (case py_contains E (heap s price_catalogue) product_name of
        Inl e \<Rightarrow> (Inl e, s)
      | Inr found \<Rightarrow>
     (if \<not> found then
        (Inr total_cost, list_append errors (VStr (msg_not_found E product_name)) s)
      else
     (case try_add_cost E (heap s price_catalogue) product_name quantity total_cost of
        Inr total_cost' \<Rightarrow> (Inr total_cost', s)
      | Inl e \<Rightarrow>
          (if caught e then
             (Inr total_cost, list_append errors (VStr (msg_invalid_price E product_name)) s)
           else (Inl e, s))))))))"

fun cost_items_st ::
  "'f pyenv \<Rightarrow> nat \<Rightarrow> nat \<Rightarrow> nat \<Rightarrow> 'f json list \<Rightarrow> 'f pynum \<Rightarrow> 'f pstate
     \<Rightarrow> (py_error + 'f pynum) \<times> 'f pstate" where
  "cost_items_st E sale price_catalogue errors [] total_cost s = (Inr total_cost, s)"
| "cost_items_st E sale price_catalogue errors (item # rest) total_cost s =
     (case cost_item_st E sale price_catalogue errors item total_cost s of
        (Inl e, s') \<Rightarrow> (Inl e, s')
      | (Inr total_cost', s') \<Rightarrow> cost_items_st E sale price_catalogue errors rest total_cost' s')"

text \<open>The result is the exception, or the total and the reference to the list of errors.\<close>

definition compute_sale_cost_st ::
  "'f pyenv \<Rightarrow> nat \<Rightarrow> nat \<Rightarrow> 'f pstate \<Rightarrow> (py_error + 'f pynum \<times> nat) \<times> 'f pstate" where
  "compute_sale_cost_st E sale price_catalogue s =
     (case alloc (VList []) s of (errors, s1) \<Rightarrow>
     (case py_get (heap s1 sale) ''items'' (VList []) of
        Inl e \<Rightarrow> (Inl e, s1)
      | Inr its \<Rightarrow>
     (case py_iter its of
        Inl e \<Rightarrow> (Inl e, s1)
      | Inr items \<Rightarrow>
     (case cost_items_st E sale price_catalogue errors items (NInt 0) s1 of
        (Inl e, s2) \<Rightarrow> (Inl e, s2)
      | (Inr total_cost, s2) \<Rightarrow> (Inr (total_cost, errors), s2)))))"

section \<open>Notions used to state the properties\<close>

text \<open>
  The float that a numeric quantity is multiplied as: an \<open>int\<close> within the range of float, a
  \<open>bool\<close> or a \<open>float\<close>. Other values, and an \<open>int\<close> out of range, have none.
\<close>

fun numeric_value :: "'f pyenv \<Rightarrow> 'f json \<Rightarrow> 'f option" where
  "numeric_value E (VInt i) = (if \<bar>i\<bar> < overflow_bound then Some (f_of_int E i) else None)"
| "numeric_value E (VBool b) = Some (f_of_int E (int_of_bool b))"
| "numeric_value E (VFloat y) = Some y"
| "numeric_value E (VStr s) = None"
| "numeric_value E VNone = None"
| "numeric_value E (VList xs) = None"
| "numeric_value E (VDict kvs) = None"

text \<open>The float value of a running total, likewise.\<close>

fun float_total :: "'f pyenv \<Rightarrow> 'f pynum \<Rightarrow> 'f option" where
  "float_total E (NInt i) = (if \<bar>i\<bar> < overflow_bound then Some (f_of_int E i) else None)"
| "float_total E (NFloat x) = Some x"

text \<open>
  The messages that one item adds to the errors, and those that one sale adds: what the loop
  body, respectively \<open>compute_sale_cost\<close>, returns from an empty list (none when it raises).
\<close>

definition item_errors :: "'f pyenv \<Rightarrow> 'f json \<Rightarrow> 'f json \<Rightarrow> 'f json \<Rightarrow> string list" where
  "item_errors E sale price_catalogue item =
     (case cost_item E sale price_catalogue item (NInt 0, []) of
        Inl e \<Rightarrow> []
      | Inr r \<Rightarrow> snd r)"

definition sale_errors :: "'f pyenv \<Rightarrow> 'f json \<Rightarrow> 'f json \<Rightarrow> string list" where
  "sale_errors E price_catalogue sale =
     (case compute_sale_cost E sale price_catalogue of
        Inl e \<Rightarrow> []
      | Inr r \<Rightarrow> snd r)"

text \<open>A running total as the program has it: the \<open>int\<close> 0 it starts from, or a float.\<close>

fun zero_or_float :: "'f pynum \<Rightarrow> bool" where
  "zero_or_float (NInt i) = (i = 0)"
| "zero_or_float (NFloat x) = True"

text \<open>
  The shape of the documents that \<open>compute_sale_cost\<close> is written for. A sale is a mapping
  whose \<open>items\<close>, when present, is a list; a line item is a mapping whose product is not a
  non-empty list or mapping (these cannot be looked up in a mapping); an \<open>int\<close> quantity or
  catalogue entry is within the range of float; the catalogue is a mapping.
\<close>

fun in_float_range :: "'f json \<Rightarrow> bool" where
  "in_float_range (VInt i) = (\<bar>i\<bar> < overflow_bound)"
| "in_float_range v = True"

fun lookup_name :: "'f json \<Rightarrow> bool" where
  "lookup_name (VList xs) = (xs = [])"
| "lookup_name (VDict kvs) = (kvs = [])"
| "lookup_name v = True"

definition item_well_shaped :: "'f json \<Rightarrow> bool" where
  "item_well_shaped item =
     (case item of
        VDict d \<Rightarrow>
          lookup_name (dict_get d ''product'' VNone)
          \<and> in_float_range (dict_get d ''quantity'' (VInt 0))
      | _ \<Rightarrow> False)"

definition sale_items :: "'f json \<Rightarrow> 'f json list option" where
  "sale_items sale =
     (case sale of
        VDict sd \<Rightarrow> (case dict_get sd ''items'' (VList []) of VList items \<Rightarrow> Some items | _ \<Rightarrow> None)
      | _ \<Rightarrow> None)"

definition sale_well_shaped :: "'f json \<Rightarrow> bool" where
  "sale_well_shaped sale =
     (case sale_items sale of None \<Rightarrow> False | Some items \<Rightarrow> list_all item_well_shaped items)"

definition catalogue_well_shaped :: "'f json \<Rightarrow> bool" where
  "catalogue_well_shaped price_catalogue =
     (case price_catalogue of
        VDict c \<Rightarrow> list_all (\<lambda>kv. in_float_range (snd kv)) c
      | _ \<Rightarrow> False)"

text \<open>
  The total as the specification words it: the sum, over all sales and all their line items,
  of \<open>price(product) * quantity\<close>. The sums are Python's: they start from the \<open>int\<close> 0 and add
  from left to right, item by item within a sale and then sale by sale.

  \<open>valid_item_cost\<close> gives the cost \<open>price * quantity\<close> of a valid line item: a mapping with a
  non-empty string product that the catalogue lists, a truthy numeric quantity within the
  range of float, and a catalogue entry that \<open>float\<close> accepts. Any other item has none.
  \<open>valid_sale_costs\<close> gives the costs of the items of a sale all of whose items are valid.
\<close>

definition to_float :: "'f pyenv \<Rightarrow> 'f pynum \<Rightarrow> 'f" where
  "to_float E t = (case t of NInt i \<Rightarrow> f_of_int E i | NFloat x \<Rightarrow> x)"

definition add_cost :: "'f pyenv \<Rightarrow> 'f pynum \<Rightarrow> 'f \<Rightarrow> 'f pynum" where
  "add_cost E t x = NFloat (f_add E (to_float E t) x)"

definition add_total :: "'f pyenv \<Rightarrow> 'f pynum \<Rightarrow> 'f pynum \<Rightarrow> 'f pynum" where
  "add_total E a b =
     (case a of
        NInt i \<Rightarrow> (case b of NInt j \<Rightarrow> NInt (i + j) | NFloat y \<Rightarrow> NFloat (f_add E (f_of_int E i) y))
      | NFloat x \<Rightarrow> NFloat (f_add E x (to_float E b)))"

definition sum_sale :: "'f pyenv \<Rightarrow> 'f list \<Rightarrow> 'f pynum" where
  "sum_sale E costs = foldl (add_cost E) (NInt 0) costs"

definition sum_sales :: "'f pyenv \<Rightarrow> 'f list list \<Rightarrow> 'f pynum" where
  "sum_sales E css = foldl (add_total E) (NInt 0) (map (sum_sale E) css)"

definition valid_item_cost :: "'f pyenv \<Rightarrow> (string \<times> 'f json) list \<Rightarrow> 'f json \<Rightarrow> 'f option" where
  "valid_item_cost E c item =
     (case item of
        VDict d \<Rightarrow>
          (case map_of d ''product'' of
             Some (VStr p) \<Rightarrow>
               (case map_of d ''quantity'' of
                  Some q \<Rightarrow>
                    (case map_of c p of
                       Some entry \<Rightarrow>
                         (case py_float E entry of
                            Inr price \<Rightarrow>
                              (case numeric_value E q of
                                 Some y \<Rightarrow>
                                   (if p \<noteq> [] \<and> truthy E q then Some (f_mul E price y) else None)
                               | None \<Rightarrow> None)
                          | Inl e \<Rightarrow> None)
                     | None \<Rightarrow> None)
                | None \<Rightarrow> None)
           | _ \<Rightarrow> None)
      | _ \<Rightarrow> None)"

definition valid_sale_costs :: "'f pyenv \<Rightarrow> (string \<times> 'f json) list \<Rightarrow> 'f json \<Rightarrow> 'f list option" where
  "valid_sale_costs E c sale =
     (case sale_items sale of
        None \<Rightarrow> None
      | Some items \<Rightarrow> those (map (valid_item_cost E c) items))"

text \<open>
  The text of the report for the formatted total \<open>tc\<close>, the formatted time \<open>et\<close> and the
  errors, line by line as the specification lists them: the header, the total, the time, a
  blank line, the heading of the error section or the sentence that there are none, and the
  error messages.
\<close>

definition report_text :: "string \<Rightarrow> string \<Rightarrow> string list \<Rightarrow> string" where
  "report_text tc et errors =
     join_str newline
       ([''=== Sales Computation Results ==='',
         ''Total Cost: $'' @ tc,
         ''Execution Time: '' @ et @ '' seconds'',
         [],
         (if errors \<noteq> [] then ''Errors encountered during execution:''
          else ''No errors encountered during execution.'')]
        @ errors)"

section \<open>Example documents\<close>

text \<open>A price catalogue with a numeric string, a number and a string that is no number.\<close>

definition ex_prices :: "(string \<times> dec json) list" where
  "ex_prices = [(''Apple'', VStr ''1.50''), (''Bread'', VInt 3), (''Tea'', VStr ''free'')]"

text \<open>A line item: \<open>{"product": p, "quantity": q}\<close>.\<close>

definition ex_item :: "string \<Rightarrow> dec json \<Rightarrow> (string \<times> dec json) list" where
  "ex_item p q = [(''product'', VStr p), (''quantity'', q)]"

text \<open>A sale: \<open>{"id": i, "items": [...]}\<close>.\<close>

definition ex_sale :: "string \<Rightarrow> (string \<times> dec json) list list \<Rightarrow> dec json" where
  "ex_sale i items = VDict [(''id'', VStr i), (''items'', VList (map VDict items))]"

text \<open>
  A run: the parser on the three documents \<open>{}\<close>, \<open>[]\<close> and \<open>[{}]\<close> (any other text is taken
  as malformed), a directory with a catalogue and two sales records, and argument vectors.
\<close>

definition ex_loads :: "string \<Rightarrow> string + dec json" where
  "ex_loads text =
     (if text = ''{}'' then Inr (VDict [])
      else if text = ''[]'' then Inr (VList [])
      else if text = ''[{}]'' then Inr (VList [VDict []])
      else Inl ''Expecting value: line 1 column 1 (char 0)'')"

definition ex_world :: world where
  "ex_world =
     \<lparr>stdout = [],
      files = [''prices.json'' \<mapsto> ''{}'', ''mapping.json'' \<mapsto> ''{}'', ''sales.json'' \<mapsto> ''[{}]'']\<rparr>"

text \<open>A store with a sale at address 0 and the catalogue at address 1.\<close>

definition ex_state :: "dec pstate" where
  "ex_state =
     \<lparr>heap = (\<lambda>a. VNone)
        (0 := ex_sale ''S1'' [ex_item ''Bread'' (VInt 2), ex_item ''Milk'' (VInt 1)],
         1 := VDict ex_prices),
      next_free = 2,
      io = ex_world\<rparr>"

text \<open>
  A run with something to report: the text of a catalogue that prices \<open>Bread\<close> at 3, the text
  of a sales record with one sale of two loaves and a litre of milk, the parser on these two
  texts, and the directory that holds them.
\<close>

definition ex_prices_text :: string where
  \<open>ex_prices_text = ''{"Bread": 3}''\<close>

definition ex_sales_text :: string where
  \<open>ex_sales_text =
     ''[{"id": "S1", "items": [{"product": "Bread", "quantity": 2}, {"product": "Milk", "quantity": 1}]}]''\<close>

definition ex_run_loads :: "string \<Rightarrow> string + dec json" where
  "ex_run_loads text =
     (if text = ex_prices_text then Inr (VDict [(''Bread'', VInt 3)])
      else if text = ex_sales_text then
        Inr (VList [ex_sale ''S1'' [ex_item ''Bread'' (VInt 2), ex_item ''Milk'' (VInt 1)]])
      else Inl ''Expecting value: line 1 column 1 (char 0)'')"

definition ex_run_world :: world where
  "ex_run_world =
     \<lparr>stdout = [],
      files = [''priceCatalogue.json'' \<mapsto> ex_prices_text,
               ''salesRecord.json'' \<mapsto> ex_sales_text]\<rparr>"

section \<open>Basic facts\<close>

lemma overflow_bound_gt: "1 < overflow_bound"
  by (simp add: overflow_bound_def)

lemma float_of_int_0 [simp]: "float_of_int E 0 = Inr (f_of_int E 0)"
  using overflow_bound_gt by (simp add: float_of_int_def)

lemma float_of_int_1 [simp]: "float_of_int E 1 = Inr (f_of_int E 1)"
  using overflow_bound_gt by (simp add: float_of_int_def)

section \<open>One pass of the loop body\<close>

lemma float_mul_numeric:
  "numeric_value E q = Some y \<Longrightarrow> float_mul E p q = Inr (f_mul E p y)"
  by (cases q) (auto simp: float_of_int_def int_of_bool_def overflow_bound_gt split: if_splits
      intro: order.strict_trans[OF _ overflow_bound_gt])

lemma num_add_float:
  "num_add E t (NFloat c) =
     (case float_total E t of None \<Rightarrow> Inl OverflowError | Some x \<Rightarrow> Inr (NFloat (f_add E x c)))"
  by (cases t) (auto simp: float_of_int_def)


text \<open>The loop body on an item that passes the first check.\<close>

lemma cost_item_checked:
  assumes "map_of d ''product'' = Some pn" "truthy E pn"
    and "map_of d ''quantity'' = Some q" "truthy E q"
  shows "cost_item E sale cat (VDict d) (t, es) =
     (case py_contains E cat pn of
        Inl e \<Rightarrow> Inl e
      | Inr found \<Rightarrow>
          if \<not> found then Inr (t, es @ [msg_not_found E pn])
          else (case try_add_cost E cat pn q t of
                  Inr t' \<Rightarrow> Inr (t', es)
                | Inl e \<Rightarrow> if caught e then Inr (t, es @ [msg_invalid_price E pn]) else Inl e))"
  using assms by (simp add: cost_item_def py_get_def dict_get_def)

lemma try_add_cost_key:
  assumes "map_of c p = Some entry"
  shows "try_add_cost E (VDict c) (VStr p) q t =
     (case py_float E entry of
        Inl e \<Rightarrow> Inl e
      | Inr price \<Rightarrow>
          (case float_mul E price q of
             Inl e \<Rightarrow> Inl e
           | Inr cost \<Rightarrow> num_add E t (NFloat cost)))"
  using assms by (simp add: try_add_cost_def)

lemma cost_item_listed:
  assumes "map_of d ''product'' = Some (VStr p)" and "p \<noteq> []" and "map_of c p = Some entry"
    and "map_of d ''quantity'' = Some q" and "truthy E q"
  shows "cost_item E sale (VDict c) (VDict d) (t, es) =
     (case py_float E entry of
        Inl e \<Rightarrow> if caught e then Inr (t, es @ [msg_invalid_price E (VStr p)]) else Inl e
      | Inr price \<Rightarrow>
          (case float_mul E price q of
             Inl e \<Rightarrow> if caught e then Inr (t, es @ [msg_invalid_price E (VStr p)]) else Inl e
           | Inr cost \<Rightarrow>
               (case num_add E t (NFloat cost) of
                  Inl e \<Rightarrow> if caught e then Inr (t, es @ [msg_invalid_price E (VStr p)]) else Inl e
                | Inr t' \<Rightarrow> Inr (t', es))))"
proof -
  have "truthy E (VStr p)" using assms(2) by simp
  from cost_item_checked [OF assms(1) this assms(4,5)] show ?thesis
    using assms(3) by (simp add: try_add_cost_key split: sum.splits)
qed

lemma cost_item_numeric:
  assumes "map_of d ''product'' = Some (VStr p)" and "p \<noteq> []" and "map_of c p = Some entry"
    and "map_of d ''quantity'' = Some q" and "truthy E q"
    and "numeric_value E q = Some y" and "float_total E t = Some x"
  shows "cost_item E sale (VDict c) (VDict d) (t, es) =
     (case py_float E entry of
        Inl e \<Rightarrow> if caught e then Inr (t, es @ [msg_invalid_price E (VStr p)]) else Inl e
      | Inr price \<Rightarrow> Inr (NFloat (f_add E x (f_mul E price y)), es))"
  using cost_item_listed [OF assms(1-5)] assms(6,7)
  by (simp add: float_mul_numeric num_add_float split: sum.splits)

lemma ex_item_fields:
  "map_of (ex_item p q) ''product'' = Some (VStr p)"
  "map_of (ex_item p q) ''quantity'' = Some q"
  by (simp_all add: ex_item_def)

lemma ex_prices_entries:
  "map_of ex_prices ''Apple'' = Some (VStr ''1.50'')"
  "map_of ex_prices ''Bread'' = Some (VInt 3)"
  "map_of ex_prices ''Tea'' = Some (VStr ''free'')"
  "map_of ex_prices ''Milk'' = None"
  by (simp_all add: ex_prices_def)


section \<open>Catalogue entries that are not a price\<close>




section \<open>Negative quantities\<close>





section \<open>The loops: what is appended to the errors\<close>

lemma try_add_cost_caught:
  assumes "try_add_cost E cat pn q t = Inl e" and "caught e"
  shows "try_add_cost E cat pn q t0 = Inl e"
  using assms
  by (auto simp: try_add_cost_def num_add_float caught_def split: sum.splits option.splits)

lemma try_add_cost_zero:
  assumes "try_add_cost E cat pn q t = Inr t'"
  shows "\<exists>t0. try_add_cost E cat pn q (NInt 0) = Inr t0"
  using assms overflow_bound_gt
  by (auto simp: try_add_cost_def num_add_float split: sum.splits option.splits)

lemma cost_item_appends:
  assumes "cost_item E sale cat item (t, es) = Inr (t', es')"
  shows "es' = es @ item_errors E sale cat item"
proof (cases "\<exists>pn q found. py_get item ''product'' VNone = Inr pn
     \<and> py_get item ''quantity'' (VInt 0) = Inr q \<and> truthy E pn \<and> truthy E q
     \<and> py_contains E cat pn = Inr True")
  case False
  then show ?thesis using assms
    by (auto simp: cost_item_def item_errors_def split: sum.splits if_splits)
next
  case True
  then obtain pn q where h: "py_get item ''product'' VNone = Inr pn"
     "py_get item ''quantity'' (VInt 0) = Inr q" "truthy E pn" "truthy E q"
     "py_contains E cat pn = Inr True"
    by blast
  show ?thesis
  proof (cases "try_add_cost E cat pn q t")
    case (Inr t1)
    then obtain t0 where "try_add_cost E cat pn q (NInt 0) = Inr t0"
      using try_add_cost_zero by blast
    then show ?thesis using assms h Inr
      by (simp add: cost_item_def item_errors_def)
  next
    case (Inl e)
    then have c: "caught e" using assms h
      by (auto simp: cost_item_def split: if_splits)
    then have "try_add_cost E cat pn q (NInt 0) = Inl e"
      using Inl try_add_cost_caught by blast
    then show ?thesis using assms h Inl c
      by (simp add: cost_item_def item_errors_def)
  qed
qed

lemma cost_items_appends:
  "cost_items E sale cat items (t, es) = Inr (t', es')
   \<Longrightarrow> es' = es @ concat (map (item_errors E sale cat) items)"
proof (induction items arbitrary: t es)
  case Nil
  then show ?case by simp
next
  case (Cons item rest)
  then obtain t1 es1 where s: "cost_item E sale cat item (t, es) = Inr (t1, es1)"
    and r: "cost_items E sale cat rest (t1, es1) = Inr (t', es')"
    by (auto split: sum.splits)
  from cost_item_appends [OF s] Cons.IH [OF r] show ?case by simp
qed

lemma item_errors_le_1: "length (item_errors E sale cat item) \<le> 1"
  by (auto simp: item_errors_def cost_item_def split: sum.splits if_splits)

lemma cost_sales_appends:
  "cost_sales E cat sales (T, es) = Inr (T', es')
   \<Longrightarrow> es' = es @ concat (map (sale_errors E cat) sales)"
proof (induction sales arbitrary: T es)
  case Nil
  then show ?case by simp
next
  case (Cons sale rest)
  then obtain r T1 where s: "compute_sale_cost E sale cat = Inr r"
    and r: "cost_sales E cat rest (T1, es @ snd r) = Inr (T', es')"
    by (auto split: sum.splits)
  from Cons.IH [OF r] s show ?case by (simp add: sale_errors_def)
qed

lemma compute_sale_cost_items:
  "sale_items sale = Some items
   \<Longrightarrow> compute_sale_cost E sale cat = cost_items E sale cat items (NInt 0, [])"
  by (auto simp: sale_items_def compute_sale_cost_def py_get_def py_iter_def
      split: json.splits)

section \<open>Order of the error list\<close>

text \<open>
  Claim C6. When the run over the sales returns, the flat error list is the concatenation,
  in the order of the sales, of the error lists of the sales; the error list that
  \<open>compute_sale_cost\<close> returns for a sale is the concatenation, in the order of the items, of
  what each item adds, which is one message at most. Nothing is reordered or dropped: a
  message that two items produce appears twice.
\<close>

theorem errors_in_encounter_order:
  "(cost_sales E cat sales (NInt 0, []) = Inr (T, all_errors) \<longrightarrow>
      all_errors = concat (map (sale_errors E cat) sales))
   \<and> (sale_items sale = Some items \<and> compute_sale_cost E sale cat = Inr (t, es) \<longrightarrow>
      es = concat (map (item_errors E sale cat) items))
   \<and> length (item_errors E sale cat item) \<le> 1"
proof (intro conjI impI)
  assume "cost_sales E cat sales (NInt 0, []) = Inr (T, all_errors)"
  from cost_sales_appends [OF this] show "all_errors = concat (map (sale_errors E cat) sales)"
    by simp
next
  assume a: "sale_items sale = Some items \<and> compute_sale_cost E sale cat = Inr (t, es)"
  then have "cost_items E sale cat items (NInt 0, []) = Inr (t, es)"
    using compute_sale_cost_items [where sale = sale and items = items and E = E and cat = cat]
    by simp
  from cost_items_appends [OF this] show "es = concat (map (item_errors E sale cat) items)"
    by simp
next
  show "length (item_errors E sale cat item) \<le> 1" by (rule item_errors_le_1)
qed

text \<open>
  Two sales: \<open>Milk\<close> twice and \<open>Tea\<close> in the first, an item without quantity and \<open>Milk\<close>
  again in the second. The message for \<open>Milk\<close> appears three times, in place.
\<close>

theorem errors_in_encounter_order_witness:
  "cost_sales dec_env (VDict ex_prices)
     [ex_sale ''S1'' [ex_item ''Milk'' (VInt 2), ex_item ''Milk'' (VInt 2), ex_item ''Tea'' (VInt 1)],
      ex_sale ''S2'' [[(''product'', VStr ''Apple'')], ex_item ''Milk'' (VInt 1)]]
     (NInt 0, [])
   = Inr (NInt 0,
       [''Product '' @ [CHR 0x27] @ ''Milk'' @ [CHR 0x27] @ '' not found in price catalogue'',
        ''Product '' @ [CHR 0x27] @ ''Milk'' @ [CHR 0x27] @ '' not found in price catalogue'',
        ''Invalid price for product '' @ [CHR 0x27] @ ''Tea'' @ [CHR 0x27] @ '' in price catalogue'',
        ''Invalid item in sale S2: Missing product name or quantity'',
        ''Product '' @ [CHR 0x27] @ ''Milk'' @ [CHR 0x27] @ '' not found in price catalogue''])
   \<and> concat (map (sale_errors dec_env (VDict ex_prices))
     [ex_sale ''S1'' [ex_item ''Milk'' (VInt 2), ex_item ''Milk'' (VInt 2), ex_item ''Tea'' (VInt 1)],
      ex_sale ''S2'' [[(''product'', VStr ''Apple'')], ex_item ''Milk'' (VInt 1)]])
   = [''Product '' @ [CHR 0x27] @ ''Milk'' @ [CHR 0x27] @ '' not found in price catalogue'',
        ''Product '' @ [CHR 0x27] @ ''Milk'' @ [CHR 0x27] @ '' not found in price catalogue'',
        ''Invalid price for product '' @ [CHR 0x27] @ ''Tea'' @ [CHR 0x27] @ '' in price catalogue'',
        ''Invalid item in sale S2: Missing product name or quantity'',
        ''Product '' @ [CHR 0x27] @ ''Milk'' @ [CHR 0x27] @ '' not found in price catalogue'']
   \<and> sale_items (ex_sale ''S2'' [[(''product'', VStr ''Apple'')], ex_item ''Milk'' (VInt 1)])
     = Some [VDict [(''product'', VStr ''Apple'')], VDict (ex_item ''Milk'' (VInt 1))]
   \<and> concat (map (item_errors dec_env
        (ex_sale ''S2'' [[(''product'', VStr ''Apple'')], ex_item ''Milk'' (VInt 1)])
        (VDict ex_prices))
      [VDict [(''product'', VStr ''Apple'')], VDict (ex_item ''Milk'' (VInt 1))])
     = [''Invalid item in sale S2: Missing product name or quantity'',
        ''Product '' @ [CHR 0x27] @ ''Milk'' @ [CHR 0x27] @ '' not found in price catalogue'']"
proof -
  have items: "sale_items (ex_sale ''S2'' [[(''product'', VStr ''Apple'')], ex_item ''Milk'' (VInt 1)])
     = Some [VDict [(''product'', VStr ''Apple'')], VDict (ex_item ''Milk'' (VInt 1))]"
    by code_simp
  have sale: "compute_sale_cost dec_env
        (ex_sale ''S2'' [[(''product'', VStr ''Apple'')], ex_item ''Milk'' (VInt 1)])
        (VDict ex_prices)
     = Inr (NInt 0,
        [''Invalid item in sale S2: Missing product name or quantity'',
         ''Product '' @ [CHR 0x27] @ ''Milk'' @ [CHR 0x27] @ '' not found in price catalogue''])"
    by code_simp
  have run: "cost_sales dec_env (VDict ex_prices)
     [ex_sale ''S1'' [ex_item ''Milk'' (VInt 2), ex_item ''Milk'' (VInt 2), ex_item ''Tea'' (VInt 1)],
      ex_sale ''S2'' [[(''product'', VStr ''Apple'')], ex_item ''Milk'' (VInt 1)]]
     (NInt 0, [])
   = Inr (NInt 0,
       [''Product '' @ [CHR 0x27] @ ''Milk'' @ [CHR 0x27] @ '' not found in price catalogue'',
        ''Product '' @ [CHR 0x27] @ ''Milk'' @ [CHR 0x27] @ '' not found in price catalogue'',
        ''Invalid price for product '' @ [CHR 0x27] @ ''Tea'' @ [CHR 0x27] @ '' in price catalogue'',
        ''Invalid item in sale S2: Missing product name or quantity'',
        ''Product '' @ [CHR 0x27] @ ''Milk'' @ [CHR 0x27] @ '' not found in price catalogue''])"
    by code_simp
  from errors_in_encounter_order [where E = dec_env and cat = "VDict ex_prices" and T = "NInt 0"
      and sales = "[ex_sale ''S1'' [ex_item ''Milk'' (VInt 2), ex_item ''Milk'' (VInt 2),
                                    ex_item ''Tea'' (VInt 1)],
                    ex_sale ''S2'' [[(''product'', VStr ''Apple'')], ex_item ''Milk'' (VInt 1)]]"]
    errors_in_encounter_order [where E = dec_env and cat = "VDict ex_prices" and t = "NInt 0"
      and sale = "ex_sale ''S2'' [[(''product'', VStr ''Apple'')], ex_item ''Milk'' (VInt 1)]"
      and items = "[VDict [(''product'', VStr ''Apple'')], VDict (ex_item ''Milk'' (VInt 1))]"
      and es = "[''Invalid item in sale S2: Missing product name or quantity'',
         ''Product '' @ [CHR 0x27] @ ''Milk'' @ [CHR 0x27] @ '' not found in price catalogue'']"]
    run items sale
  show ?thesis by auto
qed


section \<open>Documents of the expected shape are costed to the end\<close>

lemma zero_or_float_total: "zero_or_float t \<Longrightarrow> \<exists>x. float_total E t = Some x"
  using overflow_bound_gt by (cases t) auto

lemma py_float_in_range:
  "in_float_range v \<Longrightarrow> py_float E v = Inl e \<Longrightarrow> caught e"
  using overflow_bound_gt
  by (cases v) (auto simp: float_of_int_def int_of_bool_def caught_def split: if_splits option.splits)

lemma float_mul_in_range:
  "in_float_range q \<Longrightarrow> float_mul E p q = Inl e \<Longrightarrow> caught e"
  using overflow_bound_gt
  by (cases q) (auto simp: float_of_int_def int_of_bool_def caught_def split: if_splits)

lemma py_contains_lookup_name:
  "lookup_name pn \<Longrightarrow> truthy E pn \<Longrightarrow>
   py_contains E (VDict c) pn = Inr (\<exists>p entry. pn = VStr p \<and> map_of c p = Some entry)"
  by (cases pn) auto

lemma catalogue_entry_in_range:
  "catalogue_well_shaped (VDict c) \<Longrightarrow> map_of c p = Some entry \<Longrightarrow> in_float_range entry"
  by (auto simp: catalogue_well_shaped_def list_all_iff dest!: map_of_SomeD)

lemma try_add_cost_in_range:
  assumes "catalogue_well_shaped (VDict c)" and "map_of c p = Some entry"
    and "in_float_range q" and "zero_or_float t"
  shows "(\<exists>x. try_add_cost E (VDict c) (VStr p) q t = Inr (NFloat x))
       \<or> (\<exists>e. try_add_cost E (VDict c) (VStr p) q t = Inl e \<and> caught e)"
proof -
  obtain x where x: "float_total E t = Some x"
    using zero_or_float_total [OF assms(4)] by blast
  note r = catalogue_entry_in_range [OF assms(1,2)]
  show ?thesis
    using py_float_in_range [OF r, of E] float_mul_in_range [OF assms(3), of E] x assms(2)
    by (auto simp: try_add_cost_def num_add_float split: sum.splits)
qed

lemma cost_item_returns:
  assumes "catalogue_well_shaped cat" and "item_well_shaped item" and "zero_or_float t"
  shows "\<exists>t' es'. cost_item E (VDict sd) cat item (t, es) = Inr (t', es') \<and> zero_or_float t'"
proof -
  obtain c where c: "cat = VDict c"
    using assms(1) by (auto simp: catalogue_well_shaped_def split: json.splits)
  obtain d where d: "item = VDict d"
    using assms(2) by (auto simp: item_well_shaped_def split: json.splits)
  define pn where "pn = dict_get d ''product'' VNone"
  define q where "q = dict_get d ''quantity'' (VInt 0)"
  have shape: "lookup_name pn" "in_float_range q"
    using assms(2) by (auto simp: item_well_shaped_def d pn_def q_def)
  show ?thesis
  proof (cases "truthy E pn \<and> truthy E q")
    case False
    then show ?thesis using assms(3)
      by (auto simp: cost_item_def py_get_def c d pn_def q_def)
  next
    case True
    note found = py_contains_lookup_name [OF shape(1), of E c] 
    show ?thesis
    proof (cases "\<exists>p entry. pn = VStr p \<and> map_of c p = Some entry")
      case False
      then show ?thesis using True found assms(3)
        by (auto simp: cost_item_def py_get_def c d pn_def [symmetric] q_def [symmetric])
    next
      case yes: True
      then obtain p entry where p: "pn = VStr p" "map_of c p = Some entry"
        by blast
      from try_add_cost_in_range [OF assms(1) [unfolded c] p(2) shape(2) assms(3), of E]
      show ?thesis using True found yes assms(3) p
        by (auto simp: cost_item_def py_get_def c d pn_def [symmetric] q_def [symmetric])
    qed
  qed
qed

lemma cost_items_returns:
  assumes "catalogue_well_shaped cat"
  shows "list_all item_well_shaped items \<Longrightarrow> zero_or_float t \<Longrightarrow>
    \<exists>t' es'. cost_items E (VDict sd) cat items (t, es) = Inr (t', es') \<and> zero_or_float t'"
proof (induction items arbitrary: t es)
  case Nil
  then show ?case by simp
next
  case (Cons item rest)
  then obtain t1 es1 where s: "cost_item E (VDict sd) cat item (t, es) = Inr (t1, es1)"
    and z: "zero_or_float t1"
    using cost_item_returns [OF assms, of item t E sd es] by auto
  from Cons.IH [OF _ z, of es1] Cons.prems s show ?case by simp
qed

lemma compute_sale_cost_returns:
  assumes "catalogue_well_shaped cat" and "sale_well_shaped sale"
  shows "\<exists>t es. compute_sale_cost E sale cat = Inr (t, es) \<and> zero_or_float t"
proof -
  obtain items where i: "sale_items sale = Some items" "list_all item_well_shaped items"
    using assms(2) by (auto simp: sale_well_shaped_def split: option.splits)
  then obtain sd where sd: "sale = VDict sd"
    by (auto simp: sale_items_def split: json.splits)
  have "zero_or_float (NInt 0 :: 'a pynum)" by simp
  from cost_items_returns [OF assms(1) i(2) this, of E sd "[]"]
    compute_sale_cost_items [OF i(1), of E cat]
  show ?thesis by (auto simp: sd)
qed

lemma num_add_zero_or_float:
  "zero_or_float a \<Longrightarrow> zero_or_float b \<Longrightarrow> \<exists>s. num_add E a b = Inr s \<and> zero_or_float s"
  by (cases a; cases b) auto

lemma cost_sales_returns:
  assumes "catalogue_well_shaped cat"
  shows "list_all sale_well_shaped sales \<Longrightarrow> zero_or_float T \<Longrightarrow>
    \<exists>T' es'. cost_sales E cat sales (T, es) = Inr (T', es') \<and> zero_or_float T'"
proof (induction sales arbitrary: T es)
  case Nil
  then show ?case by simp
next
  case (Cons sale rest)
  then obtain t es1 where s: "compute_sale_cost E sale cat = Inr (t, es1)" and z: "zero_or_float t"
    using compute_sale_cost_returns [OF assms, of sale E] by auto
  obtain T1 where a: "num_add E T t = Inr T1" "zero_or_float T1"
    using num_add_zero_or_float [OF Cons.prems(2) z] by blast
  from Cons.IH [OF _ a(2), of "es @ es1"] Cons.prems s a show ?case by simp
qed

text \<open>The errors already recorded play no part in a pass of the loop body.\<close>

lemma cost_item_from_empty:
  "cost_item E sale cat item (t, es) =
     (case cost_item E sale cat item (t, []) of Inl e \<Rightarrow> Inl e | Inr r \<Rightarrow> Inr (fst r, es @ snd r))"
  by (auto simp: cost_item_def split: sum.splits)

lemma cost_item_error_keeps_total:
  assumes "cost_item E sale cat item (t, es) = Inr (t', es')" and "es' \<noteq> es"
  shows "t' = t"
  using assms by (auto simp: cost_item_def split: sum.splits if_splits)

lemma cost_items_without_errors:
  "cost_items E sale cat items (t, es) = Inr (t', es') \<Longrightarrow>
   cost_items E sale cat (filter (\<lambda>item. item_errors E sale cat item = []) items) (t, es0)
     = Inr (t', es0)"
proof (induction items arbitrary: t es)
  case Nil
  then show ?case by simp
next
  case (Cons item rest)
  then obtain t1 es1 where s: "cost_item E sale cat item (t, es) = Inr (t1, es1)"
    and r: "cost_items E sale cat rest (t1, es1) = Inr (t', es')"
    by (auto split: sum.splits)
  note app = cost_item_appends [OF s]
  show ?case
  proof (cases "item_errors E sale cat item = []")
    case True
    then have "es1 = es" using app by simp
    then have "cost_item E sale cat item (t, []) = Inr (t1, [])"
      using s cost_item_from_empty [of E sale cat item t es]
      by (auto split: sum.splits)
    then have "cost_item E sale cat item (t, es0) = Inr (t1, es0)"
      using cost_item_from_empty [of E sale cat item t es0] by simp
    then show ?thesis using True Cons.IH [OF r] by simp
  next
    case False
    then have "es1 \<noteq> es" using app by simp
    then have "t1 = t" using cost_item_error_keeps_total [OF s] by simp
    then show ?thesis using False Cons.IH [OF r] by simp
  qed
qed

section \<open>No item is fatal\<close>

text \<open>
  Claim C2, as the code has it. The claim covers every sale value, also one whose \<open>items\<close>
  is not a sequence or holds an item that is not a mapping. The function checks neither: it
  iterates over \<open>items\<close> and calls \<open>get\<close> on each item. With \<open>"items": 5\<close> the loop raises
  \<open>TypeError\<close>, with \<open>"items": [5]\<close> the first pass raises \<open>AttributeError\<close>.
\<close>

theorem malformed_sale_counterexample:
  "compute_sale_cost dec_env (VDict [(''id'', VStr ''S1''), (''items'', VInt 5)]) (VDict ex_prices)
     = Inl TypeError
   \<and> compute_sale_cost dec_env (VDict [(''id'', VStr ''S1''), (''items'', VList [VInt 5])])
       (VDict ex_prices)
     = Inl AttributeError"
  by code_simp

text \<open>
  Claim C2, amended. Let the catalogue be a mapping whose \<open>int\<close> entries are within the
  range of float, and every sale be a mapping whose \<open>items\<close> is absent or a list of
  mappings, each with a product that can be looked up (not a non-empty list or mapping) and
  with an \<open>int\<close> quantity, if any, within the range of float. Then the run over the sales
  returns, with the errors of every sale; \<open>compute_sale_cost\<close> returns for every sale, with
  what each of its items adds to the errors, in order; and the total it returns is the one
  that the items without error give on their own: an item that records an error changes
  nothing for the items after it.
\<close>

theorem well_shaped_sales_are_costed:
  assumes "catalogue_well_shaped cat" and "list_all sale_well_shaped sales"
  shows "(\<exists>T. cost_sales E cat sales (NInt 0, []) = Inr (T, concat (map (sale_errors E cat) sales)))
     \<and> (\<forall>sale \<in> set sales. \<forall>items. sale_items sale = Some items \<longrightarrow>
          (\<exists>t. compute_sale_cost E sale cat
                  = Inr (t, concat (map (item_errors E sale cat) items))
              \<and> cost_items E sale cat
                  (filter (\<lambda>item. item_errors E sale cat item = []) items) (NInt 0, [])
                  = Inr (t, [])))"
proof (intro conjI ballI allI impI)
  have "zero_or_float (NInt 0 :: 'a pynum)" by simp
  from cost_sales_returns [OF assms this, of E "[]"]
  obtain T es where r: "cost_sales E cat sales (NInt 0, []) = Inr (T, es)" by blast
  from cost_sales_appends [OF r] r
  show "\<exists>T. cost_sales E cat sales (NInt 0, []) = Inr (T, concat (map (sale_errors E cat) sales))"
    by auto
next
  fix sale items
  assume m: "sale \<in> set sales" and i: "sale_items sale = Some items"
  then have "sale_well_shaped sale" using assms(2) by (simp add: list_all_iff)
  from compute_sale_cost_returns [OF assms(1) this, of E]
  obtain t es where r: "compute_sale_cost E sale cat = Inr (t, es)" by blast
  then have l: "cost_items E sale cat items (NInt 0, []) = Inr (t, es)"
    by (simp add: compute_sale_cost_items [OF i])
  from cost_items_appends [OF l] cost_items_without_errors [OF l, of "[]"] r
  show "\<exists>t. compute_sale_cost E sale cat = Inr (t, concat (map (item_errors E sale cat) items))
              \<and> cost_items E sale cat
                  (filter (\<lambda>item. item_errors E sale cat item = []) items) (NInt 0, [])
                  = Inr (t, [])"
    by auto
qed

text \<open>
  Apples, milk (which the catalogue does not list) and bread in one sale: the error for the
  milk is recorded and the bread is still costed, 6.00 + 3.00.
\<close>

theorem well_shaped_sales_are_costed_witness:
  "catalogue_well_shaped (VDict ex_prices)
   \<and> list_all sale_well_shaped
        [ex_sale ''S1'' [ex_item ''Apple'' (VInt 4), ex_item ''Milk'' (VInt 2),
                         ex_item ''Bread'' (VInt 1)]]
   \<and> (\<exists>T. cost_sales dec_env (VDict ex_prices)
        [ex_sale ''S1'' [ex_item ''Apple'' (VInt 4), ex_item ''Milk'' (VInt 2),
                         ex_item ''Bread'' (VInt 1)]] (NInt 0, [])
        = Inr (T, concat (map (sale_errors dec_env (VDict ex_prices))
            [ex_sale ''S1'' [ex_item ''Apple'' (VInt 4), ex_item ''Milk'' (VInt 2),
                             ex_item ''Bread'' (VInt 1)]])))
   \<and> compute_sale_cost dec_env
        (ex_sale ''S1'' [ex_item ''Apple'' (VInt 4), ex_item ''Milk'' (VInt 2),
                         ex_item ''Bread'' (VInt 1)]) (VDict ex_prices)
      = Inr (NFloat (900, 2),
          [''Product '' @ [CHR 0x27] @ ''Milk'' @ [CHR 0x27] @ '' not found in price catalogue''])
   \<and> cost_items dec_env
        (ex_sale ''S1'' [ex_item ''Apple'' (VInt 4), ex_item ''Milk'' (VInt 2),
                         ex_item ''Bread'' (VInt 1)]) (VDict ex_prices)
        [VDict (ex_item ''Apple'' (VInt 4)), VDict (ex_item ''Bread'' (VInt 1))] (NInt 0, [])
      = Inr (NFloat (900, 2), [])"
proof -
  have t: "cost_items dec_env
        (ex_sale ''S1'' [ex_item ''Apple'' (VInt 4), ex_item ''Milk'' (VInt 2),
                         ex_item ''Bread'' (VInt 1)]) (VDict ex_prices)
        [VDict (ex_item ''Apple'' (VInt 4)), VDict (ex_item ''Bread'' (VInt 1))] (NInt 0, [])
      = Inr (NFloat (900, 2), [])"
    by code_simp
  have c: "catalogue_well_shaped (VDict ex_prices)"
    by code_simp
  have s: "list_all sale_well_shaped
        [ex_sale ''S1'' [ex_item ''Apple'' (VInt 4), ex_item ''Milk'' (VInt 2),
                         ex_item ''Bread'' (VInt 1)]]"
    by code_simp
  have r: "compute_sale_cost dec_env
        (ex_sale ''S1'' [ex_item ''Apple'' (VInt 4), ex_item ''Milk'' (VInt 2),
                         ex_item ''Bread'' (VInt 1)]) (VDict ex_prices)
      = Inr (NFloat (900, 2),
          [''Product '' @ [CHR 0x27] @ ''Milk'' @ [CHR 0x27] @ '' not found in price catalogue''])"
    by code_simp
  from well_shaped_sales_are_costed [OF c s, of dec_env] c s r t
  show ?thesis by blast
qed


section \<open>The total of a run without invalid items\<close>

lemma float_total_to_float:
  "zero_or_float t \<Longrightarrow> float_total E t = Some (to_float E t)"
  using overflow_bound_gt by (cases t) (auto simp: to_float_def)

lemma valid_item_step:
  assumes "valid_item_cost E c item = Some x" and "zero_or_float t"
  shows "cost_item E sale (VDict c) item (t, es) = Inr (add_cost E t x, es)"
proof -
  from assms(1) obtain d p q entry price y where h:
    "item = VDict d" "map_of d ''product'' = Some (VStr p)" "map_of d ''quantity'' = Some q"
    "map_of c p = Some entry" "py_float E entry = Inr price" "numeric_value E q = Some y"
    "p \<noteq> []" "truthy E q" "x = f_mul E price y"
    by (auto simp: valid_item_cost_def split: json.splits option.splits sum.splits if_splits)
  from cost_item_numeric [OF h(2) h(7) h(4) h(3) h(8) h(6) float_total_to_float [OF assms(2)],
      where sale = sale and es = es]
  show ?thesis using h by (simp add: add_cost_def)
qed

lemma valid_items_loop:
  "those (map (valid_item_cost E c) items) = Some cs \<Longrightarrow> zero_or_float t \<Longrightarrow>
   cost_items E sale (VDict c) items (t, es) = Inr (foldl (add_cost E) t cs, es)"
proof (induction items arbitrary: t cs)
  case Nil
  then show ?case by simp
next
  case (Cons item rest)
  from Cons.prems(1) obtain x cs' where h: "valid_item_cost E c item = Some x"
    "those (map (valid_item_cost E c) rest) = Some cs'" "cs = x # cs'"
    by (auto split: option.splits)
  have "zero_or_float (add_cost E t x)" by (simp add: add_cost_def)
  from Cons.IH [OF h(2) this] valid_item_step [OF h(1) Cons.prems(2), of sale es]
  show ?case by (simp add: h(3))
qed

lemma valid_sale_total:
  assumes "valid_sale_costs E c sale = Some cs"
  shows "compute_sale_cost E sale (VDict c) = Inr (sum_sale E cs, [])"
proof -
  from assms obtain items where i: "sale_items sale = Some items"
    "those (map (valid_item_cost E c) items) = Some cs"
    by (auto simp: valid_sale_costs_def split: option.splits)
  have "zero_or_float (NInt 0 :: 'a pynum)" by simp
  from valid_items_loop [OF i(2) this, of sale "[]"] compute_sale_cost_items [OF i(1), of E "VDict c"]
  show ?thesis by (simp add: sum_sale_def)
qed

lemma zero_or_float_sum_sale: "zero_or_float (sum_sale E cs)"
proof -
  have "zero_or_float t \<Longrightarrow> zero_or_float (foldl (add_cost E) t cs)" for t
    by (induction cs arbitrary: t) (auto simp: add_cost_def)
  then show ?thesis by (simp add: sum_sale_def)
qed

lemma num_add_add_total:
  "zero_or_float a \<Longrightarrow> zero_or_float b \<Longrightarrow>
   num_add E a b = Inr (add_total E a b) \<and> zero_or_float (add_total E a b)"
  by (cases a; cases b) (auto simp: add_total_def to_float_def)

lemma valid_sales_loop:
  "those (map (valid_sale_costs E c) sales) = Some css \<Longrightarrow> zero_or_float T \<Longrightarrow>
   cost_sales E (VDict c) sales (T, es) = Inr (foldl (add_total E) T (map (sum_sale E) css), es)"
proof (induction sales arbitrary: T css)
  case Nil
  then show ?case by simp
next
  case (Cons sale rest)
  from Cons.prems(1) obtain cs css' where h: "valid_sale_costs E c sale = Some cs"
    "those (map (valid_sale_costs E c) rest) = Some css'" "css = cs # css'"
    by (auto split: option.splits)
  note a = num_add_add_total [OF Cons.prems(2) zero_or_float_sum_sale, of E E cs]
  from Cons.IH [OF h(2) conjunct2 [OF a]] valid_sale_total [OF h(1)] a
  show ?case by (simp add: h(3))
qed

text \<open>
  Claim C1, as the code has it. The claim asks of a valid line item a truthy numeric
  quantity; an \<open>int\<close> quantity beyond the range of float is one, and the multiplication
  raises \<open>OverflowError\<close> on it, which nothing catches: the run produces no total. Here:
  the catalogue prices \<open>Bread\<close> at 3, the quantity is \<open>10 ^ 400\<close>.
\<close>

theorem total_counterexample:
  "map_of ex_prices ''Bread'' = Some (VInt 3)
   \<and> py_float dec_env (VInt 3) = Inr (3, 0)
   \<and> truthy dec_env (VInt (10 ^ 400))
   \<and> cost_sales dec_env (VDict ex_prices) [ex_sale ''S1'' [ex_item ''Bread'' (VInt (10 ^ 400))]]
        (NInt 0, [])
      = Inl OverflowError"
  by code_simp

text \<open>
  Claim C1, amended. When every sale is a mapping all of whose line items are valid, where a
  valid item has a non-empty string product that the catalogue lists, a truthy numeric
  quantity that is a float, \<open>True\<close> or an \<open>int\<close> within the range of float, and a
  catalogue entry that \<open>float\<close> accepts, the run over the sales returns the sum over all
  sales and all their items of \<open>price * quantity\<close>, and an empty error list.
\<close>

theorem total_is_sum_over_valid_items:
  assumes "those (map (valid_sale_costs E c) sales) = Some css"
  shows "cost_sales E (VDict c) sales (NInt 0, []) = Inr (sum_sales E css, [])"
proof -
  have "zero_or_float (NInt 0 :: 'a pynum)" by simp
  from valid_sales_loop [OF assms this, of "[]"] show ?thesis
    by (simp add: sum_sales_def)
qed

text \<open>
  Three sales: four apples at \<open>"1.50"\<close> and a loaf at 3; nothing; two loaves. The costs are
  6.00 and 3, then 6, and the total is 15.00.
\<close>

theorem total_is_sum_over_valid_items_witness:
  "those (map (valid_sale_costs dec_env ex_prices)
      [ex_sale ''S1'' [ex_item ''Apple'' (VInt 4), ex_item ''Bread'' (VInt 1)],
       ex_sale ''S2'' [],
       ex_sale ''S3'' [ex_item ''Bread'' (VInt 2)]])
     = Some [[(600, 2), (3, 0)], [], [(6, 0)]]
   \<and> sum_sales dec_env [[(600, 2), (3, 0)], [], [(6, 0)]] = NFloat (1500, 2)
   \<and> cost_sales dec_env (VDict ex_prices)
      [ex_sale ''S1'' [ex_item ''Apple'' (VInt 4), ex_item ''Bread'' (VInt 1)],
       ex_sale ''S2'' [],
       ex_sale ''S3'' [ex_item ''Bread'' (VInt 2)]] (NInt 0, [])
     = Inr (NFloat (1500, 2), [])
   \<and> dec_fixed 2 (1500, 2) = ''15.00''"
proof -
  have v: "those (map (valid_sale_costs dec_env ex_prices)
      [ex_sale ''S1'' [ex_item ''Apple'' (VInt 4), ex_item ''Bread'' (VInt 1)],
       ex_sale ''S2'' [],
       ex_sale ''S3'' [ex_item ''Bread'' (VInt 2)]])
     = Some [[(600, 2), (3, 0)], [], [(6, 0)]]"
    by code_simp
  have s: "sum_sales dec_env [[(600, 2), (3, 0)], [], [(6, 0)]] = NFloat (1500, 2)"
    by code_simp
  have f: "dec_fixed 2 (1500, 2) = ''15.00''"
    by (simp add: dec_fixed_def fixed_digits_def round_half_even_def pad_zeros_def str_nat.simps)
  from total_is_sum_over_valid_items [OF v] v s f show ?thesis by simp
qed


section \<open>The report\<close>

lemma join_str_blank_line:
  "join_str newline ([a, b, c, newline @ x] @ es) = join_str newline ([a, b, c, [], x] @ es)"
  by (cases es) simp_all

lemma results_lines_text:
  assumes "results_lines E total_cost execution_time errors = Inr results"
    and "fmt_fixed E 2 total_cost = Inr tc" and "fmt_fixed E 3 execution_time = Inr et"
  shows "join_str newline results = report_text tc et errors"
proof (cases "errors = []")
  case True
  then show ?thesis using assms
    by (auto simp: results_lines_def report_text_def)
next
  case False
  then have "results = [''=== Sales Computation Results ==='', ''Total Cost: $'' @ tc,
       ''Execution Time: '' @ et @ '' seconds'',
       newline @ ''Errors encountered during execution:''] @ errors"
    using assms by (auto simp: results_lines_def)
  then have "join_str newline results =
     join_str newline ([''=== Sales Computation Results ==='', ''Total Cost: $'' @ tc,
       ''Execution Time: '' @ et @ '' seconds'', [],
       ''Errors encountered during execution:''] @ errors)"
    by (simp only: join_str_blank_line)
  then show ?thesis using False
    by (simp add: report_text_def)
qed

lemma write_results_text:
  assumes "fmt_fixed E 2 total_cost = Inr tc" and "fmt_fixed E 3 execution_time = Inr et"
  shows "write_results E total_cost execution_time errors w =
     Inr (w\<lparr>stdout := stdout w @ [report_text tc et errors],
            files := (files w)(''SalesResults.txt'' \<mapsto> report_text tc et errors)\<rparr>)"
proof -
  obtain results where r: "results_lines E total_cost execution_time errors = Inr results"
    using assms by (auto simp: results_lines_def)
  from results_lines_text [OF r assms] r show ?thesis
    by (simp add: write_results_def print_def write_file_def)
qed

lemma write_results_fails:
  "write_results E total_cost execution_time errors w = Inr w' \<Longrightarrow>
   \<exists>tc et. fmt_fixed E 2 total_cost = Inr tc \<and> fmt_fixed E 3 execution_time = Inr et"
  by (auto simp: write_results_def results_lines_def split: sum.splits)

lemma ex_formats:
  "fmt_fixed dec_env 2 (NFloat (900, 2)) = Inr ''9.00''"
  "fmt_fixed dec_env 3 (NFloat (12, 3)) = Inr ''0.012''"
  "fmt_fixed dec_env 2 (NInt 0) = Inr ''0.00''"
  by (simp_all add: fmt_fixed_def dec_env_def dec_of_int_def dec_fixed_def fixed_digits_def
      round_half_even_def pad_zeros_def str_nat.simps)

text \<open>The running total stays the \<open>int\<close> 0 or a float, whatever the documents hold.\<close>

lemma cost_item_zero_or_float:
  "cost_item E sale cat item (t, es) = Inr (t', es') \<Longrightarrow> zero_or_float t \<Longrightarrow> zero_or_float t'"
  by (cases t)
    (auto simp: cost_item_def try_add_cost_def split: sum.splits if_splits)

lemma cost_items_zero_or_float:
  "cost_items E sale cat items (t, es) = Inr (t', es') \<Longrightarrow> zero_or_float t \<Longrightarrow> zero_or_float t'"
proof (induction items arbitrary: t es)
  case Nil
  then show ?case by simp
next
  case (Cons item rest)
  then obtain t1 es1 where s: "cost_item E sale cat item (t, es) = Inr (t1, es1)"
    and r: "cost_items E sale cat rest (t1, es1) = Inr (t', es')"
    by (auto split: sum.splits)
  from Cons.IH [OF r cost_item_zero_or_float [OF s Cons.prems(2)]] show ?case .
qed

lemma compute_sale_cost_zero_or_float:
  "compute_sale_cost E sale cat = Inr (t, es) \<Longrightarrow> zero_or_float t"
proof -
  assume a: "compute_sale_cost E sale cat = Inr (t, es)"
  then obtain items where "cost_items E sale cat items (NInt 0, []) = Inr (t, es)"
    by (auto simp: compute_sale_cost_def split: sum.splits)
  from cost_items_zero_or_float [OF this] show ?thesis by simp
qed

lemma cost_sales_zero_or_float:
  "cost_sales E cat sales (T, es) = Inr (T', es') \<Longrightarrow> zero_or_float T \<Longrightarrow> zero_or_float T'"
proof (induction sales arbitrary: T es)
  case Nil
  then show ?case by simp
next
  case (Cons sale rest)
  then obtain t es1 T1 where s: "compute_sale_cost E sale cat = Inr (t, es1)"
    and a: "num_add E T t = Inr T1"
    and r: "cost_sales E cat rest (T1, es @ es1) = Inr (T', es')"
    by (auto split: sum.splits)
  from num_add_zero_or_float [OF Cons.prems(2) compute_sale_cost_zero_or_float [OF s], of E] a
  have "zero_or_float T1" by auto
  from Cons.IH [OF r this] show ?case .
qed

lemma fmt_fixed_total:
  "zero_or_float t \<Longrightarrow> fmt_fixed E d t = Inr (f_fixed E d (to_float E t))"
  by (cases t) (simp_all add: fmt_fixed_def to_float_def)

text \<open>A run whose documents load and whose sales are costed writes the report of that cost.\<close>

lemma main_reports:
  assumes "length argv = 3"
    and "load_json_file json_loads (argv ! 1) w = Inr price_catalogue"
    and "load_json_file json_loads (argv ! 2) w = Inr (VList sales)"
    and "cost_sales E price_catalogue sales (NInt 0, []) = Inr (run_total, run_errors)"
  shows "main E json_loads start_time end_time argv w =
     (Returned,
      w\<lparr>stdout := stdout w
           @ [report_text (f_fixed E 2 (to_float E run_total))
                (f_fixed E 3 (f_sub E end_time start_time)) run_errors],
        files := (files w)(''SalesResults.txt'' \<mapsto>
           report_text (f_fixed E 2 (to_float E run_total))
             (f_fixed E 3 (f_sub E end_time start_time)) run_errors)\<rparr>)"
proof -
  have "zero_or_float run_total"
    using cost_sales_zero_or_float [OF assms(4)] by simp
  then have tc: "fmt_fixed E 2 run_total = Inr (f_fixed E 2 (to_float E run_total))"
    by (rule fmt_fixed_total)
  have et: "fmt_fixed E 3 (NFloat (f_sub E end_time start_time))
              = Inr (f_fixed E 3 (f_sub E end_time start_time))"
    by (simp add: fmt_fixed_def)
  from write_results_text [OF tc et, of run_errors w] assms show ?thesis
    by (simp add: main_def)
qed

lemma main_returned:
  assumes "main E json_loads start_time end_time argv w = (Returned, w')"
  shows "\<exists>price_catalogue sales run_total run_errors.
           length argv = 3
           \<and> load_json_file json_loads (argv ! 1) w = Inr price_catalogue
           \<and> load_json_file json_loads (argv ! 2) w = Inr (VList sales)
           \<and> cost_sales E price_catalogue sales (NInt 0, []) = Inr (run_total, run_errors)"
  using assms by (auto simp: main_def split: if_splits sum.splits json.splits)

lemma ex_run_formats:
  "f_fixed dec_env 2 (to_float dec_env (NFloat (6, 0))) = ''6.00''"
  "f_fixed dec_env 3 (f_sub dec_env (12, 3) (0, 0)) = ''0.012''"
  by (simp_all add: to_float_def dec_env_def dec_sub_def dec_fixed_def fixed_digits_def
      round_half_even_def pad_zeros_def str_nat.simps)

lemma ex_run_documents:
  "load_json_file ex_run_loads
     ([''computeSales.py'', ''priceCatalogue.json'', ''salesRecord.json''] ! 1) ex_run_world
     = Inr (VDict [(''Bread'', VInt 3)])"
  "load_json_file ex_run_loads
     ([''computeSales.py'', ''priceCatalogue.json'', ''salesRecord.json''] ! 2) ex_run_world
     = Inr (VList [ex_sale ''S1'' [ex_item ''Bread'' (VInt 2), ex_item ''Milk'' (VInt 1)]])"
  by (simp_all add: load_json_file_def ex_run_loads_def ex_run_world_def ex_prices_text_def
      ex_sales_text_def)

text \<open>
  Claim C8. When the total and the time can be formatted (a float always can, and so can the
  \<open>int\<close> 0 that a run without costed items leaves), \<open>write_results\<close> prints one text and
  writes the same text to \<open>SalesResults.txt\<close>: the lines joined by line ends, namely the
  header, \<open>Total Cost: $\<close> with the total in the format \<open>.2f\<close>, \<open>Execution Time:\<close> with the
  time in the format \<open>.3f\<close> and \<open>seconds\<close>, a blank line, then either the heading
  \<open>Errors encountered during execution:\<close> and the errors in their order, or
  \<open>No errors encountered during execution.\<close>

  A run of \<open>main\<close> on three arguments whose two documents load, the second as a list of sales,
  and whose sales are costed with a total and a list of errors, returns after printing and
  writing the text with that total, the time between the two clock readings, and those
  errors, and nothing else. Every run of \<open>main\<close> that returns is such a run.
\<close>

theorem report_layout:
  "(fmt_fixed E 2 total_cost = Inr tc \<and> fmt_fixed E 3 execution_time = Inr et \<longrightarrow>
      write_results E total_cost execution_time errors w =
        Inr (w\<lparr>stdout := stdout w @ [report_text tc et errors],
               files := (files w)(''SalesResults.txt'' \<mapsto> report_text tc et errors)\<rparr>))
   \<and> fmt_fixed E 2 (NFloat x) = Inr (f_fixed E 2 x)
   \<and> fmt_fixed E 2 (NInt 0) = Inr (f_fixed E 2 (f_of_int E 0))
   \<and> fmt_fixed E 3 (NFloat y) = Inr (f_fixed E 3 y)
   \<and> (length argv = 3
       \<and> load_json_file json_loads (argv ! 1) w = Inr price_catalogue
       \<and> load_json_file json_loads (argv ! 2) w = Inr (VList sales)
       \<and> cost_sales E price_catalogue sales (NInt 0, []) = Inr (run_total, run_errors) \<longrightarrow>
        fmt_fixed E 2 run_total = Inr (f_fixed E 2 (to_float E run_total))
        \<and> main E json_loads start_time end_time argv w =
            (Returned,
             w\<lparr>stdout := stdout w
                  @ [report_text (f_fixed E 2 (to_float E run_total))
                       (f_fixed E 3 (f_sub E end_time start_time)) run_errors],
               files := (files w)(''SalesResults.txt'' \<mapsto>
                  report_text (f_fixed E 2 (to_float E run_total))
                    (f_fixed E 3 (f_sub E end_time start_time)) run_errors)\<rparr>))
   \<and> (main E json_loads start_time end_time argv w = (Returned, w') \<longrightarrow>
        (\<exists>catalogue record_sales T es.
           length argv = 3
           \<and> load_json_file json_loads (argv ! 1) w = Inr catalogue
           \<and> load_json_file json_loads (argv ! 2) w = Inr (VList record_sales)
           \<and> cost_sales E catalogue record_sales (NInt 0, []) = Inr (T, es)
           \<and> w' = w\<lparr>stdout := stdout w
                        @ [report_text (f_fixed E 2 (to_float E T))
                             (f_fixed E 3 (f_sub E end_time start_time)) es],
                     files := (files w)(''SalesResults.txt'' \<mapsto>
                        report_text (f_fixed E 2 (to_float E T))
                          (f_fixed E 3 (f_sub E end_time start_time)) es)\<rparr>))"
proof (intro conjI impI)
  assume "fmt_fixed E 2 total_cost = Inr tc \<and> fmt_fixed E 3 execution_time = Inr et"
  then show "write_results E total_cost execution_time errors w =
        Inr (w\<lparr>stdout := stdout w @ [report_text tc et errors],
               files := (files w)(''SalesResults.txt'' \<mapsto> report_text tc et errors)\<rparr>)"
    using write_results_text by blast
next
  assume a: "length argv = 3
       \<and> load_json_file json_loads (argv ! 1) w = Inr price_catalogue
       \<and> load_json_file json_loads (argv ! 2) w = Inr (VList sales)
       \<and> cost_sales E price_catalogue sales (NInt 0, []) = Inr (run_total, run_errors)"
  then have "zero_or_float run_total"
    using cost_sales_zero_or_float [of E price_catalogue sales "NInt 0" "[]" run_total run_errors]
    by simp
  then show "fmt_fixed E 2 run_total = Inr (f_fixed E 2 (to_float E run_total))"
    by (rule fmt_fixed_total)
  from a show "main E json_loads start_time end_time argv w =
            (Returned,
             w\<lparr>stdout := stdout w
                  @ [report_text (f_fixed E 2 (to_float E run_total))
                       (f_fixed E 3 (f_sub E end_time start_time)) run_errors],
               files := (files w)(''SalesResults.txt'' \<mapsto>
                  report_text (f_fixed E 2 (to_float E run_total))
                    (f_fixed E 3 (f_sub E end_time start_time)) run_errors)\<rparr>)"
    using main_reports [of argv json_loads w price_catalogue sales E run_total run_errors
        start_time end_time]
    by blast
next
  assume m: "main E json_loads start_time end_time argv w = (Returned, w')"
  from main_returned [OF m] obtain catalogue record_sales T es where
    r: "length argv = 3" "load_json_file json_loads (argv ! 1) w = Inr catalogue"
      "load_json_file json_loads (argv ! 2) w = Inr (VList record_sales)"
      "cost_sales E catalogue record_sales (NInt 0, []) = Inr (T, es)"
    by blast
  from main_reports [OF r, of start_time end_time] m
  have "w' = w\<lparr>stdout := stdout w
                        @ [report_text (f_fixed E 2 (to_float E T))
                             (f_fixed E 3 (f_sub E end_time start_time)) es],
                     files := (files w)(''SalesResults.txt'' \<mapsto>
                        report_text (f_fixed E 2 (to_float E T))
                          (f_fixed E 3 (f_sub E end_time start_time)) es)\<rparr>"
    by simp
  with r show "\<exists>catalogue record_sales T es.
           length argv = 3
           \<and> load_json_file json_loads (argv ! 1) w = Inr catalogue
           \<and> load_json_file json_loads (argv ! 2) w = Inr (VList record_sales)
           \<and> cost_sales E catalogue record_sales (NInt 0, []) = Inr (T, es)
           \<and> w' = w\<lparr>stdout := stdout w
                        @ [report_text (f_fixed E 2 (to_float E T))
                             (f_fixed E 3 (f_sub E end_time start_time)) es],
                     files := (files w)(''SalesResults.txt'' \<mapsto>
                        report_text (f_fixed E 2 (to_float E T))
                          (f_fixed E 3 (f_sub E end_time start_time)) es)\<rparr>"
    by blast
qed (simp_all add: fmt_fixed_def)

text \<open>
  A report with two errors and one with none; and a run on a catalogue that prices \<open>Bread\<close>
  at 3 and a record of one sale, of two loaves and a litre of milk, which the catalogue does
  not list: the report shows the total 6.00 and the one error of that run.
\<close>

theorem report_layout_witness:
  "fmt_fixed dec_env 2 (NFloat (900, 2)) = Inr ''9.00''
   \<and> fmt_fixed dec_env 3 (NFloat (12, 3)) = Inr ''0.012''
   \<and> write_results dec_env (NFloat (900, 2)) (NFloat (12, 3)) [''first'', ''second''] ex_world
     = Inr (ex_world
         \<lparr>stdout := [''=== Sales Computation Results ===\<newline>Total Cost: $9.00\<newline>Execution Time: 0.012 seconds\<newline>\<newline>Errors encountered during execution:\<newline>first\<newline>second''],
          files := (files ex_world)(''SalesResults.txt'' \<mapsto>
            ''=== Sales Computation Results ===\<newline>Total Cost: $9.00\<newline>Execution Time: 0.012 seconds\<newline>\<newline>Errors encountered during execution:\<newline>first\<newline>second'')\<rparr>)
   \<and> write_results dec_env (NInt 0) (NFloat (12, 3)) [] ex_world
     = Inr (ex_world
         \<lparr>stdout := [''=== Sales Computation Results ===\<newline>Total Cost: $0.00\<newline>Execution Time: 0.012 seconds\<newline>\<newline>No errors encountered during execution.''],
          files := (files ex_world)(''SalesResults.txt'' \<mapsto>
            ''=== Sales Computation Results ===\<newline>Total Cost: $0.00\<newline>Execution Time: 0.012 seconds\<newline>\<newline>No errors encountered during execution.'')\<rparr>)
   \<and> length [''computeSales.py'', ''priceCatalogue.json'', ''salesRecord.json''] = 3
   \<and> load_json_file ex_run_loads
        ([''computeSales.py'', ''priceCatalogue.json'', ''salesRecord.json''] ! 1) ex_run_world
      = Inr (VDict [(''Bread'', VInt 3)])
   \<and> load_json_file ex_run_loads
        ([''computeSales.py'', ''priceCatalogue.json'', ''salesRecord.json''] ! 2) ex_run_world
      = Inr (VList [ex_sale ''S1'' [ex_item ''Bread'' (VInt 2), ex_item ''Milk'' (VInt 1)]])
   \<and> cost_sales dec_env (VDict [(''Bread'', VInt 3)])
        [ex_sale ''S1'' [ex_item ''Bread'' (VInt 2), ex_item ''Milk'' (VInt 1)]] (NInt 0, [])
      = Inr (NFloat (6, 0),
             [''Product '' @ [CHR 0x27] @ ''Milk'' @ [CHR 0x27] @ '' not found in price catalogue''])
   \<and> main dec_env ex_run_loads (0, 0) (12, 3)
        [''computeSales.py'', ''priceCatalogue.json'', ''salesRecord.json''] ex_run_world
      = (Returned, ex_run_world
         \<lparr>stdout := [''=== Sales Computation Results ===\<newline>Total Cost: $6.00\<newline>Execution Time: 0.012 seconds\<newline>\<newline>Errors encountered during execution:\<newline>Product ''
                       @ [CHR 0x27] @ ''Milk'' @ [CHR 0x27] @ '' not found in price catalogue''],
          files := (files ex_run_world)(''SalesResults.txt'' \<mapsto>
            ''=== Sales Computation Results ===\<newline>Total Cost: $6.00\<newline>Execution Time: 0.012 seconds\<newline>\<newline>Errors encountered during execution:\<newline>Product ''
              @ [CHR 0x27] @ ''Milk'' @ [CHR 0x27] @ '' not found in price catalogue'')\<rparr>)"
proof -
  let ?argv = "[''computeSales.py'', ''priceCatalogue.json'', ''salesRecord.json'']"
  let ?m = "''Product '' @ [CHR 0x27] @ ''Milk'' @ [CHR 0x27] @ '' not found in price catalogue''"
  have t1: "report_text ''9.00'' ''0.012'' [''first'', ''second''] =
     ''=== Sales Computation Results ===\<newline>Total Cost: $9.00\<newline>Execution Time: 0.012 seconds\<newline>\<newline>Errors encountered during execution:\<newline>first\<newline>second''"
    by (simp add: report_text_def newline_def)
  have t2: "report_text ''0.00'' ''0.012'' [] =
     ''=== Sales Computation Results ===\<newline>Total Cost: $0.00\<newline>Execution Time: 0.012 seconds\<newline>\<newline>No errors encountered during execution.''"
    by (simp add: report_text_def newline_def)
  have t3: "report_text ''6.00'' ''0.012'' [?m] =
     ''=== Sales Computation Results ===\<newline>Total Cost: $6.00\<newline>Execution Time: 0.012 seconds\<newline>\<newline>Errors encountered during execution:\<newline>Product ''
       @ [CHR 0x27] @ ''Milk'' @ [CHR 0x27] @ '' not found in price catalogue''"
    by (simp add: report_text_def newline_def)
  have e: "stdout ex_world = []" "stdout ex_run_world = []"
    by (simp_all add: ex_world_def ex_run_world_def)
  have n: "length ?argv = 3"
    by simp
  have c: "cost_sales dec_env (VDict [(''Bread'', VInt 3)])
        [ex_sale ''S1'' [ex_item ''Bread'' (VInt 2), ex_item ''Milk'' (VInt 1)]] (NInt 0, [])
      = Inr (NFloat (6, 0), [?m])"
    by code_simp
  have w1: "write_results dec_env (NFloat (900, 2)) (NFloat (12, 3)) [''first'', ''second''] ex_world
     = Inr (ex_world\<lparr>stdout := stdout ex_world
              @ [report_text ''9.00'' ''0.012'' [''first'', ''second'']],
            files := (files ex_world)(''SalesResults.txt'' \<mapsto>
              report_text ''9.00'' ''0.012'' [''first'', ''second''])\<rparr>)"
    using report_layout [where E = dec_env and total_cost = "NFloat (900, 2)" and tc = "''9.00''"
      and execution_time = "NFloat (12, 3)" and et = "''0.012''" and w = ex_world
      and errors = "[''first'', ''second'']"] ex_formats
    by blast
  have w2: "write_results dec_env (NInt 0) (NFloat (12, 3)) [] ex_world
     = Inr (ex_world\<lparr>stdout := stdout ex_world @ [report_text ''0.00'' ''0.012'' []],
            files := (files ex_world)(''SalesResults.txt'' \<mapsto>
              report_text ''0.00'' ''0.012'' [])\<rparr>)"
    using report_layout [where E = dec_env and total_cost = "NInt 0" and tc = "''0.00''"
      and execution_time = "NFloat (12, 3)" and et = "''0.012''" and w = ex_world
      and errors = "[]"] ex_formats
    by blast
  have r: "main dec_env ex_run_loads (0, 0) (12, 3) ?argv ex_run_world
      = (Returned, ex_run_world\<lparr>stdout := stdout ex_run_world
              @ [report_text (f_fixed dec_env 2 (to_float dec_env (NFloat (6, 0))))
                   (f_fixed dec_env 3 (f_sub dec_env (12, 3) (0, 0))) [?m]],
            files := (files ex_run_world)(''SalesResults.txt'' \<mapsto>
              report_text (f_fixed dec_env 2 (to_float dec_env (NFloat (6, 0))))
                   (f_fixed dec_env 3 (f_sub dec_env (12, 3) (0, 0))) [?m])\<rparr>)"
    using report_layout [where E = dec_env and argv = ?argv and json_loads = ex_run_loads
      and w = ex_run_world and price_catalogue = "VDict [(''Bread'', VInt 3)]"
      and sales = "[ex_sale ''S1'' [ex_item ''Bread'' (VInt 2), ex_item ''Milk'' (VInt 1)]]"
      and run_total = "NFloat (6, 0)" and run_errors = "[?m]"
      and start_time = "(0, 0)" and end_time = "(12, 3)"]
      n ex_run_documents c
    by blast
  show ?thesis
    using ex_formats(1,2) w1 w2 n ex_run_documents c r
    unfolding ex_run_formats t1 t2 t3 e append_Nil
    by blast
qed

section \<open>A sales record that is not a list\<close>

text \<open>
  Claim C7. When two arguments are given and the second names a file whose content parses to
  a value that is not a list, \<open>main\<close> ends by \<open>sys.exit(1)\<close> after printing one diagnostic
  and nothing else; no file is written. The costing is not run: the outcome is the same for
  every such value and does not depend on the catalogue or the float operations. When the
  catalogue has been loaded, the diagnostic is \<open>Error: Sales record must be a list of sales\<close>
  (otherwise it is the loader's, for the catalogue).
\<close>

theorem not_a_list_is_fatal:
  assumes "length argv = 3" and "files w (argv ! 2) = Some content"
    and "json_loads content = Inr sales_record"
    and "(case sales_record of VList sales \<Rightarrow> False | _ \<Rightarrow> True)"
  shows "(\<exists>diagnostic. main E json_loads start_time end_time argv w
            = (SysExit 1, w\<lparr>stdout := stdout w @ [diagnostic]\<rparr>))
       \<and> files (snd (main E json_loads start_time end_time argv w)) = files w
       \<and> ((\<exists>price_catalogue. load_json_file json_loads (argv ! 1) w = Inr price_catalogue) \<longrightarrow>
            main E json_loads start_time end_time argv w
              = (SysExit 1, w\<lparr>stdout := stdout w @ [''Error: Sales record must be a list of sales'']\<rparr>))"
proof -
  have s: "load_json_file json_loads (argv ! 2) w = Inr sales_record"
    using assms(2,3) by (simp add: load_json_file_def)
  show ?thesis
  proof (cases "load_json_file json_loads (argv ! 1) w")
    case (Inl w1)
    then obtain d where "w1 = w\<lparr>stdout := stdout w @ [d]\<rparr>"
      by (auto simp: load_json_file_def print_def split: option.splits sum.splits)
    then have m: "main E json_loads start_time end_time argv w
       = (SysExit 1, w\<lparr>stdout := stdout w @ [d]\<rparr>)"
      using assms(1) Inl by (simp add: main_def)
    show ?thesis
    proof (intro conjI)
      show "\<exists>diagnostic. main E json_loads start_time end_time argv w
            = (SysExit 1, w\<lparr>stdout := stdout w @ [diagnostic]\<rparr>)"
        using m by blast
      show "files (snd (main E json_loads start_time end_time argv w)) = files w"
        using m by simp
    qed (use Inl in simp)
  next
    case (Inr price_catalogue)
    then have m: "main E json_loads start_time end_time argv w
       = (SysExit 1, w\<lparr>stdout := stdout w @ [''Error: Sales record must be a list of sales'']\<rparr>)"
      using assms(1,4) s by (auto simp: main_def print_def split: json.splits)
    show ?thesis
    proof (intro conjI)
      show "\<exists>diagnostic. main E json_loads start_time end_time argv w
            = (SysExit 1, w\<lparr>stdout := stdout w @ [diagnostic]\<rparr>)"
        using m by blast
      show "files (snd (main E json_loads start_time end_time argv w)) = files w"
        using m by simp
    qed (use m in simp)
  qed
qed

text \<open>A sales record that is the mapping \<open>{}\<close>.\<close>

theorem not_a_list_is_fatal_witness:
  "length [''computeSales.py'', ''prices.json'', ''mapping.json''] = 3
   \<and> files ex_world ([''computeSales.py'', ''prices.json'', ''mapping.json''] ! 2) = Some ''{}''
   \<and> ex_loads ''{}'' = Inr (VDict [])
   \<and> main dec_env ex_loads (0, 0) (12, 3) [''computeSales.py'', ''prices.json'', ''mapping.json'']
        ex_world
      = (SysExit 1, ex_world\<lparr>stdout := [''Error: Sales record must be a list of sales'']\<rparr>)
   \<and> files ex_world ''SalesResults.txt'' = None"
proof -
  have h1: "length [''computeSales.py'', ''prices.json'', ''mapping.json''] = 3"
    by simp
  have h2: "files ex_world ([''computeSales.py'', ''prices.json'', ''mapping.json''] ! 2) = Some ''{}''"
    by (simp add: ex_world_def)
  have h3: "ex_loads ''{}'' = Inr (VDict [])"
    by (simp add: ex_loads_def)
  have h4: "(case (VDict [] :: dec json) of VList sales \<Rightarrow> False | _ \<Rightarrow> True)"
    by simp
  have c: "load_json_file ex_loads ([''computeSales.py'', ''prices.json'', ''mapping.json''] ! 1)
             ex_world = Inr (VDict [])"
    by (simp add: load_json_file_def ex_world_def ex_loads_def)
  have e: "stdout ex_world = []" "files ex_world ''SalesResults.txt'' = None"
    by (simp_all add: ex_world_def)
  from not_a_list_is_fatal [where E = dec_env and start_time = "(0, 0)" and end_time = "(12, 3)"
      and json_loads = ex_loads and content = "''{}''" and w = ex_world
      and argv = "[''computeSales.py'', ''prices.json'', ''mapping.json'']"
      and sales_record = "VDict []", OF h1 h2 h3 h4] c h1 h2 h3 e
  show ?thesis by simp
qed


section \<open>The engine on the store: what it changes\<close>

text \<open>The state after the list at \<open>r\<close> has been given the messages \<open>es\<close>.\<close>

lemma list_append_errors:
  "heap s r = VList (map VStr es) \<Longrightarrow>
   list_append r (VStr m) s = s\<lparr>heap := (heap s)(r := VList (map VStr (es @ [m])))\<rparr>"
  by (simp add: list_append_def)

lemma cost_item_st_refines:
  assumes "sale \<noteq> errors" and "cat \<noteq> errors" and "heap s errors = VList (map VStr es)"
  shows "cost_item_st E sale cat errors item t s =
     (case cost_item E (heap s sale) (heap s cat) item (t, es) of
        Inl e \<Rightarrow> (Inl e, s)
      | Inr r \<Rightarrow> (Inr (fst r), s\<lparr>heap := (heap s)(errors := VList (map VStr (snd r)))\<rparr>))"
proof -
  have same: "s\<lparr>heap := (heap s)(errors := VList (map VStr es))\<rparr> = s"
    using assms(3) by (metis fun_upd_triv pstate.surjective pstate.update_convs(1))
  show ?thesis
    using assms(3) same
    by (auto simp: cost_item_st_def cost_item_def list_append_errors split: sum.splits)
qed

lemma cost_item_st_fields:
  assumes "sale \<noteq> errors" and "cat \<noteq> errors" and "heap s errors = VList (map VStr es)"
  shows "io (snd (cost_item_st E sale cat errors item t s)) = io s
       \<and> next_free (snd (cost_item_st E sale cat errors item t s)) = next_free s
       \<and> (\<forall>r. r \<noteq> errors \<longrightarrow> heap (snd (cost_item_st E sale cat errors item t s)) r = heap s r)
       \<and> (case cost_item E (heap s sale) (heap s cat) item (t, es) of
             Inl e \<Rightarrow> fst (cost_item_st E sale cat errors item t s) = Inl e
               \<and> heap (snd (cost_item_st E sale cat errors item t s)) errors = VList (map VStr es)
           | Inr r \<Rightarrow> fst (cost_item_st E sale cat errors item t s) = Inr (fst r)
               \<and> heap (snd (cost_item_st E sale cat errors item t s)) errors
                   = VList (map VStr (snd r)))"
  using assms(3) by (simp add: cost_item_st_refines [OF assms] split: sum.splits)

lemma cost_items_st_fields:
  assumes "sale \<noteq> errors" and "cat \<noteq> errors"
  shows "heap s errors = VList (map VStr es) \<Longrightarrow>
     io (snd (cost_items_st E sale cat errors items t s)) = io s
     \<and> next_free (snd (cost_items_st E sale cat errors items t s)) = next_free s
     \<and> (\<forall>r. r \<noteq> errors \<longrightarrow> heap (snd (cost_items_st E sale cat errors items t s)) r = heap s r)
     \<and> (\<exists>es'. heap (snd (cost_items_st E sale cat errors items t s)) errors = VList (map VStr es')
          \<and> (case cost_items E (heap s sale) (heap s cat) items (t, es) of
               Inl e \<Rightarrow> fst (cost_items_st E sale cat errors items t s) = Inl e
             | Inr r \<Rightarrow> fst (cost_items_st E sale cat errors items t s) = Inr (fst r)
                        \<and> es' = snd r))"
proof (induction items arbitrary: s es t)
  case Nil
  then show ?case by simp
next
  case (Cons item rest)
  define R where "R = cost_item_st E sale cat errors item t s"
  note step = cost_item_st_fields [OF assms Cons.prems, of E item t, folded R_def]
  show ?case
  proof (cases "cost_item E (heap s sale) (heap s cat) item (t, es)")
    case (Inl e)
    then have "cost_items_st E sale cat errors (item # rest) t s = (Inl e, snd R)"
      using step by (cases R) (simp add: R_def [symmetric])
    then show ?thesis using step Inl by auto
  next
    case (Inr r)
    then have c: "cost_items_st E sale cat errors (item # rest) t s
        = cost_items_st E sale cat errors rest (fst r) (snd R)"
      using step by (cases R) (simp add: R_def [symmetric])
    have h: "heap (snd R) errors = VList (map VStr (snd r))" "heap (snd R) sale = heap s sale"
      "heap (snd R) cat = heap s cat"
      using step Inr assms by simp_all
    from Cons.IH [OF h(1), of "fst r"] step Inr show ?thesis
      unfolding c by (simp add: h)
  qed
qed

text \<open>
  Claim C9. Let the sale and the price catalogue be objects of the store (their addresses are
  in use). After \<open>compute_sale_cost\<close>, whether it returns or raises, the sale and the
  catalogue hold the values they held before, and so does every object that existed before
  the call; nothing has been printed and no file written. The only change is the list that
  the function allocates for its errors, at the first free address. When the function
  returns, it returns the total and the reference to that list, which holds the messages:
  the pair that \<open>compute_sale_cost\<close> on the two values yields.
\<close>

theorem arguments_unchanged:
  assumes "sale < next_free s" and "price_catalogue < next_free s"
  shows "heap (snd (compute_sale_cost_st E sale price_catalogue s)) sale = heap s sale
       \<and> heap (snd (compute_sale_cost_st E sale price_catalogue s)) price_catalogue
           = heap s price_catalogue
       \<and> (\<forall>r. r < next_free s \<longrightarrow>
             heap (snd (compute_sale_cost_st E sale price_catalogue s)) r = heap s r)
       \<and> io (snd (compute_sale_cost_st E sale price_catalogue s)) = io s
       \<and> next_free (snd (compute_sale_cost_st E sale price_catalogue s)) = Suc (next_free s)
       \<and> (case compute_sale_cost E (heap s sale) (heap s price_catalogue) of
             Inl e \<Rightarrow> fst (compute_sale_cost_st E sale price_catalogue s) = Inl e
           | Inr r \<Rightarrow> fst (compute_sale_cost_st E sale price_catalogue s)
                      = Inr (fst r, next_free s)
                    \<and> heap (snd (compute_sale_cost_st E sale price_catalogue s)) (next_free s)
                      = VList (map VStr (snd r)))"
proof -
  define errors where "errors = next_free s"
  define s1 where "s1 = s\<lparr>heap := (heap s)(errors := VList []), next_free := Suc errors\<rparr>"
  have al: "alloc (VList []) s = (errors, s1)"
    by (simp add: alloc_def errors_def s1_def)
  have ne: "sale \<noteq> errors" "price_catalogue \<noteq> errors"
    using assms by (simp_all add: errors_def)
  have h: "heap s1 errors = VList (map VStr [])" "heap s1 sale = heap s sale"
    "heap s1 price_catalogue = heap s price_catalogue" "io s1 = io s"
    "next_free s1 = Suc (next_free s)" "\<And>r. r < next_free s \<Longrightarrow> heap s1 r = heap s r"
    using ne by (simp_all add: s1_def errors_def)
  show ?thesis
  proof (cases "\<exists>its items. py_get (heap s sale) ''items'' (VList []) = Inr its
      \<and> py_iter its = Inr items")
    case False
    then have "snd (compute_sale_cost_st E sale price_catalogue s) = s1
       \<and> (\<exists>e. fst (compute_sale_cost_st E sale price_catalogue s) = Inl e
            \<and> compute_sale_cost E (heap s sale) (heap s price_catalogue) = Inl e)"
      by (auto simp: compute_sale_cost_st_def compute_sale_cost_def al h split: sum.splits)
    then show ?thesis using h by auto
  next
    case True
    then obtain its items where i: "py_get (heap s sale) ''items'' (VList []) = Inr its"
      "py_iter its = Inr items"
      by blast
    define R where "R = cost_items_st E sale price_catalogue errors items (NInt 0) s1"
    note loop = cost_items_st_fields [OF ne h(1), of E items "NInt 0", folded R_def,
        unfolded h(2,3)]
    have c: "compute_sale_cost E (heap s sale) (heap s price_catalogue)
           = cost_items E (heap s sale) (heap s price_catalogue) items (NInt 0, [])"
      using i by (simp add: compute_sale_cost_def)
    have d: "compute_sale_cost_st E sale price_catalogue s =
       (case fst R of Inl e \<Rightarrow> (Inl e, snd R)
        | Inr total_cost \<Rightarrow> (Inr (total_cost, errors), snd R))"
      using i
      by (simp add: compute_sale_cost_st_def al h R_def [symmetric] case_prod_beta
          split: sum.splits)
    have e: "snd (compute_sale_cost_st E sale price_catalogue s) = snd R"
      by (simp add: d split: sum.splits)
    have f: "r < next_free s \<Longrightarrow> r \<noteq> errors" for r
      by (simp add: errors_def)
    show ?thesis
      using loop h f assms unfolding e c
      by (auto simp: d errors_def [symmetric] split: sum.splits)
  qed
qed

text \<open>Two loaves and a litre of milk: total 6, one error in a new list at address 2.\<close>

theorem arguments_unchanged_witness:
  "(0 :: nat) < next_free ex_state \<and> 1 < next_free ex_state
   \<and> fst (compute_sale_cost_st dec_env 0 1 ex_state) = Inr (NFloat (6, 0), 2)
   \<and> heap (snd (compute_sale_cost_st dec_env 0 1 ex_state)) 0
       = ex_sale ''S1'' [ex_item ''Bread'' (VInt 2), ex_item ''Milk'' (VInt 1)]
   \<and> heap (snd (compute_sale_cost_st dec_env 0 1 ex_state)) 1 = VDict ex_prices
   \<and> heap (snd (compute_sale_cost_st dec_env 0 1 ex_state)) 2
       = VList [VStr (''Product '' @ [CHR 0x27] @ ''Milk'' @ [CHR 0x27]
                       @ '' not found in price catalogue'')]
   \<and> io (snd (compute_sale_cost_st dec_env 0 1 ex_state)) = ex_world"
proof -
  have h: "(0 :: nat) < next_free ex_state" "1 < next_free ex_state"
    by (simp_all add: ex_state_def)
  have f: "heap ex_state 0 = ex_sale ''S1'' [ex_item ''Bread'' (VInt 2), ex_item ''Milk'' (VInt 1)]"
    "heap ex_state 1 = VDict ex_prices" "next_free ex_state = 2" "io ex_state = ex_world"
    by (simp_all add: ex_state_def)
  have p: "compute_sale_cost dec_env
      (ex_sale ''S1'' [ex_item ''Bread'' (VInt 2), ex_item ''Milk'' (VInt 1)]) (VDict ex_prices)
    = Inr (NFloat (6, 0), [''Product '' @ [CHR 0x27] @ ''Milk'' @ [CHR 0x27]
                       @ '' not found in price catalogue''])"
    by code_simp
  from arguments_unchanged [OF h, of dec_env] h f p show ?thesis
    by simp
qed

section \<open>Items that are recorded and skipped\<close>

text \<open>The loop over a list of items in two parts, and from a state with errors recorded.\<close>

lemma cost_items_append:
  "cost_items E sale cat (xs @ ys) st =
     (case cost_items E sale cat xs st of
        Inl e \<Rightarrow> Inl e
      | Inr st' \<Rightarrow> cost_items E sale cat ys st')"
  by (induction xs arbitrary: st) (auto split: sum.splits)

lemma cost_items_from_empty:
  "cost_items E sale cat xs (t, es) =
     (case cost_items E sale cat xs (t, []) of
        Inl e \<Rightarrow> Inl e
      | Inr r \<Rightarrow> Inr (fst r, es @ snd r))"
proof (induction xs arbitrary: t es)
  case Nil
  then show ?case by simp
next
  case (Cons item rest)
  show ?case
  proof (cases "cost_item E sale cat item (t, [])")
    case (Inl e)
    then show ?thesis using cost_item_from_empty [of E sale cat item t es] by simp
  next
    case (Inr r1)
    then have a: "cost_item E sale cat item (t, es) = Inr (fst r1, es @ snd r1)"
      using cost_item_from_empty [of E sale cat item t es] by simp
    have b: "cost_items E sale cat rest (fst r1, es @ snd r1) =
       (case cost_items E sale cat rest (fst r1, []) of
          Inl e \<Rightarrow> Inl e | Inr r \<Rightarrow> Inr (fst r, (es @ snd r1) @ snd r))"
      by (rule Cons.IH)
    have c: "cost_items E sale cat rest (fst r1, snd r1) =
       (case cost_items E sale cat rest (fst r1, []) of
          Inl e \<Rightarrow> Inl e | Inr r \<Rightarrow> Inr (fst r, snd r1 @ snd r))"
      by (rule Cons.IH)
    have l: "cost_items E sale cat (item # rest) (t, es)
               = cost_items E sale cat rest (fst r1, es @ snd r1)"
      using a by simp
    have r: "cost_items E sale cat (item # rest) (t, [])
               = cost_items E sale cat rest (fst r1, snd r1)"
      using Inr by simp
    show ?thesis unfolding l r b c by (simp split: sum.splits)
  qed
qed

text \<open>An item that adds one message and leaves the total_cost, in the middle of a sale.\<close>

lemma recorded_item_in_sale:
  assumes "sale_items sale = Some (pre @ item # post)"
    and "\<And>t es. cost_item E sale cat item (t, es) = Inr (t, es @ [msg])"
  shows "compute_sale_cost E sale cat =
           (case cost_items E sale cat pre (NInt 0, []) of
              Inl e \<Rightarrow> Inl e
            | Inr st \<Rightarrow> cost_items E sale cat post (fst st, snd st @ [msg]))"
    and "compute_sale_cost E sale cat = Inr (total_cost, errors) \<Longrightarrow>
           errors = concat (map (item_errors E sale cat) pre) @ [msg]
                      @ concat (map (item_errors E sale cat) post)
           \<and> cost_items E sale cat (pre @ post) (NInt 0, [])
               = Inr (total_cost, concat (map (item_errors E sale cat) pre)
                               @ concat (map (item_errors E sale cat) post))"
proof -
  show run: "compute_sale_cost E sale cat =
           (case cost_items E sale cat pre (NInt 0, []) of
              Inl e \<Rightarrow> Inl e
            | Inr st \<Rightarrow> cost_items E sale cat post (fst st, snd st @ [msg]))"
    using assms(2)
    by (simp add: compute_sale_cost_items [OF assms(1)] cost_items_append split: sum.splits)
  assume r: "compute_sale_cost E sale cat = Inr (total_cost, errors)"
  then obtain t1 es1 where p: "cost_items E sale cat pre (NInt 0, []) = Inr (t1, es1)"
    and q: "cost_items E sale cat post (t1, es1 @ [msg]) = Inr (total_cost, errors)"
    using run by (auto split: sum.splits)
  from cost_items_appends [OF p] have e1: "es1 = concat (map (item_errors E sale cat) pre)"
    by simp
  from q cost_items_from_empty [of E sale cat post t1 "es1 @ [msg]"]
  obtain r0 where z: "cost_items E sale cat post (t1, []) = Inr (total_cost, r0)"
    and e: "errors = (es1 @ [msg]) @ r0"
    by (auto split: sum.splits)
  from cost_items_appends [OF z] have e2: "r0 = concat (map (item_errors E sale cat) post)"
    by simp
  have "cost_items E sale cat post (t1, es1) = Inr (total_cost, es1 @ r0)"
    using z cost_items_from_empty [of E sale cat post t1 es1] by simp
  then have "cost_items E sale cat (pre @ post) (NInt 0, []) = Inr (total_cost, es1 @ r0)"
    using p by (simp add: cost_items_append)
  then show "errors = concat (map (item_errors E sale cat) pre) @ [msg]
                      @ concat (map (item_errors E sale cat) post)
           \<and> cost_items E sale cat (pre @ post) (NInt 0, [])
               = Inr (total_cost, concat (map (item_errors E sale cat) pre)
                               @ concat (map (item_errors E sale cat) post))"
    using e e1 e2 by simp
qed

subsection \<open>Items without a product name or a quantity\<close>

text \<open>
  The claim speaks of every line item whose product is absent. A line item that is not a
  mapping has no product, and \<open>compute_sale_cost\<close> records nothing for it: the call
  \<open>item.get\<close> raises \<open>AttributeError\<close>, which nothing catches. The sale
  \<open>{"id": "S1", "items": [null]}\<close>:
\<close>

theorem invalid_item_counterexample:
  "sale_items (VDict [(''id'', VStr ''S1''), (''items'', VList [VNone])] :: dec json) = Some [VNone]
   \<and> compute_sale_cost dec_env (VDict [(''id'', VStr ''S1''), (''items'', VList [VNone])])
        (VDict ex_prices)
      = Inl AttributeError"
  by code_simp

text \<open>
  Claim C4, for line items that are mappings. Let a sale (a mapping) have the items
  \<open>pre\<close>, then a mapping \<open>d\<close> whose \<open>product\<close> is absent or falsy (empty), or whose
  \<open>quantity\<close> is absent or falsy (zero), then \<open>post\<close>. Let \<open>msg\<close> be
  \<open>Invalid item in sale <id>: Missing product name or quantity\<close>, with the sale's \<open>id\<close> or
  \<open>Unknown\<close> when the sale has none. Then

  \<^item> the loop body on \<open>d\<close> appends \<open>msg\<close> to the errors and leaves the total as it was, and
    \<open>msg\<close> is all that \<open>d\<close> adds;
  \<^item> \<open>compute_sale_cost\<close> on the sale is the loop over \<open>pre\<close>, then \<open>msg\<close> appended to the
    errors with the total unchanged, then the loop over \<open>post\<close> from that state;
  \<^item> when \<open>compute_sale_cost\<close> returns, its errors are those of \<open>pre\<close>, then \<open>msg\<close>, then
    those of \<open>post\<close>, and its total is the one that the loop computes over \<open>pre\<close> and \<open>post\<close>
    without \<open>d\<close>.
\<close>

theorem invalid_item_recorded:
  assumes "sale_items (VDict sd) = Some (pre @ VDict d # post)"
    and "(case map_of d ''product'' of None \<Rightarrow> True | Some p \<Rightarrow> \<not> truthy E p)
         \<or> (case map_of d ''quantity'' of None \<Rightarrow> True | Some q \<Rightarrow> \<not> truthy E q)"
  shows
    "(let msg = ''Invalid item in sale ''
                @ py_str E (case map_of sd ''id'' of None \<Rightarrow> VStr ''Unknown'' | Some i \<Rightarrow> i)
                @ '': Missing product name or quantity''
      in cost_item E (VDict sd) cat (VDict d) (t, es) = Inr (t, es @ [msg])
       \<and> item_errors E (VDict sd) cat (VDict d) = [msg]
       \<and> compute_sale_cost E (VDict sd) cat =
           (case cost_items E (VDict sd) cat pre (NInt 0, []) of
              Inl e \<Rightarrow> Inl e
            | Inr st \<Rightarrow> cost_items E (VDict sd) cat post (fst st, snd st @ [msg]))
       \<and> (compute_sale_cost E (VDict sd) cat = Inr (total_cost, errors) \<longrightarrow>
            errors = concat (map (item_errors E (VDict sd) cat) pre) @ [msg]
                       @ concat (map (item_errors E (VDict sd) cat) post)
            \<and> cost_items E (VDict sd) cat (pre @ post) (NInt 0, [])
                = Inr (total_cost, concat (map (item_errors E (VDict sd) cat) pre)
                                     @ concat (map (item_errors E (VDict sd) cat) post))))"
proof -
  define msg where "msg = ''Invalid item in sale ''
                @ py_str E (case map_of sd ''id'' of None \<Rightarrow> VStr ''Unknown'' | Some i \<Rightarrow> i)
                @ '': Missing product name or quantity''"
  have "\<not> truthy E (dict_get d ''product'' VNone) \<or> \<not> truthy E (dict_get d ''quantity'' (VInt 0))"
    using assms(2) by (auto simp: dict_get_def split: option.splits)
  then have "cost_item E (VDict sd) cat (VDict d) (t, es) =
           Inr (t, es @ [msg_invalid_item E (dict_get sd ''id'' (VStr ''Unknown''))])" for t es
    by (auto simp: cost_item_def py_get_def)
  then have step: "cost_item E (VDict sd) cat (VDict d) (t, es) = Inr (t, es @ [msg])" for t es
    by (simp add: msg_invalid_item_def dict_get_def msg_def)
  have one: "item_errors E (VDict sd) cat (VDict d) = [msg]"
    using step [of "NInt 0" "[]"] by (simp add: item_errors_def)
  note sale = recorded_item_in_sale [OF assms(1) step]
  show ?thesis
    unfolding Let_def msg_def [symmetric]
    using step [of t es] one sale(1) sale(2) [of total_cost errors] by blast
qed

text \<open>
  The sale \<open>S1\<close> of one loaf, an apple without a quantity, and two loaves: nine for the
  loaves and one message. The same item in a sale without id.
\<close>

theorem invalid_item_recorded_witness:
  "sale_items (ex_sale ''S1'' [ex_item ''Bread'' (VInt 1), [(''product'', VStr ''Apple'')],
                               ex_item ''Bread'' (VInt 2)])
     = Some ([VDict (ex_item ''Bread'' (VInt 1))] @ VDict [(''product'', VStr ''Apple'')]
               # [VDict (ex_item ''Bread'' (VInt 2))])
   \<and> ((case map_of [(''product'', VStr ''Apple'')] ''product'' of
         None \<Rightarrow> True | Some p \<Rightarrow> \<not> truthy dec_env p)
      \<or> (case map_of [(''product'', VStr ''Apple'')] ''quantity'' of
         None \<Rightarrow> True | Some q \<Rightarrow> \<not> truthy dec_env q))
   \<and> compute_sale_cost dec_env
        (ex_sale ''S1'' [ex_item ''Bread'' (VInt 1), [(''product'', VStr ''Apple'')],
                         ex_item ''Bread'' (VInt 2)])
        (VDict ex_prices)
      = Inr (NFloat (9, 0), [''Invalid item in sale S1: Missing product name or quantity''])
   \<and> cost_items dec_env
        (ex_sale ''S1'' [ex_item ''Bread'' (VInt 1), [(''product'', VStr ''Apple'')],
                         ex_item ''Bread'' (VInt 2)])
        (VDict ex_prices)
        ([VDict (ex_item ''Bread'' (VInt 1))] @ [VDict (ex_item ''Bread'' (VInt 2))]) (NInt 0, [])
      = Inr (NFloat (9, 0), [])
   \<and> compute_sale_cost dec_env (VDict [(''items'', VList [VDict [(''product'', VStr ''Apple'')]])])
        (VDict ex_prices)
      = Inr (NInt 0, [''Invalid item in sale Unknown: Missing product name or quantity''])"
proof -
  let ?S = "VDict [(''id'', VStr ''S1''),
              (''items'', VList [VDict (ex_item ''Bread'' (VInt 1)),
                                 VDict [(''product'', VStr ''Apple'')],
                                 VDict (ex_item ''Bread'' (VInt 2))])] :: dec json"
  let ?U = "VDict [(''items'', VList [VDict [(''product'', VStr ''Apple'')]])] :: dec json"
  let ?m = "''Invalid item in sale S1: Missing product name or quantity''"
  have s: "ex_sale ''S1'' [ex_item ''Bread'' (VInt 1), [(''product'', VStr ''Apple'')],
                          ex_item ''Bread'' (VInt 2)] = ?S"
    by (simp add: ex_sale_def)
  have i1: "sale_items ?S
     = Some ([VDict (ex_item ''Bread'' (VInt 1))] @ VDict [(''product'', VStr ''Apple'')]
               # [VDict (ex_item ''Bread'' (VInt 2))])"
    by (simp add: sale_items_def dict_get_def)
  have i2: "sale_items ?U = Some ([] @ VDict [(''product'', VStr ''Apple'')] # [])"
    by (simp add: sale_items_def dict_get_def)
  have h: "(case map_of [(''product'', VStr ''Apple'')] ''product'' of
         None \<Rightarrow> True | Some p \<Rightarrow> \<not> truthy dec_env p)
      \<or> (case map_of [(''product'', VStr ''Apple'')] ''quantity'' of
         None \<Rightarrow> True | Some q \<Rightarrow> \<not> truthy dec_env q)"
    by simp
  have m1: "''Invalid item in sale ''
      @ py_str dec_env (case map_of [(''id'', VStr ''S1''),
              (''items'', VList [VDict (ex_item ''Bread'' (VInt 1)),
                                 VDict [(''product'', VStr ''Apple'')],
                                 VDict (ex_item ''Bread'' (VInt 2))])] ''id'' of
           None \<Rightarrow> VStr ''Unknown'' | Some i \<Rightarrow> i)
      @ '': Missing product name or quantity'' = ?m"
    by (simp add: py_str_def)
  have m2: "''Invalid item in sale ''
      @ py_str dec_env (case map_of [(''items'', VList [VDict [(''product'', VStr ''Apple'')]])]
           ''id'' of None \<Rightarrow> VStr ''Unknown'' | Some i \<Rightarrow> i)
      @ '': Missing product name or quantity''
      = ''Invalid item in sale Unknown: Missing product name or quantity''"
    by (simp add: py_str_def)
  have pre: "cost_items dec_env ?S (VDict ex_prices) [VDict (ex_item ''Bread'' (VInt 1))]
               (NInt 0, []) = Inr (NFloat (3, 0), [])"
    by code_simp
  have post: "cost_items dec_env ?S (VDict ex_prices) [VDict (ex_item ''Bread'' (VInt 2))]
               (NFloat (3, 0), [] @ [?m]) = Inr (NFloat (9, 0), [?m])"
    by code_simp
  have ie: "concat (map (item_errors dec_env ?S (VDict ex_prices))
                      [VDict (ex_item ''Bread'' (VInt 1))])
            @ concat (map (item_errors dec_env ?S (VDict ex_prices))
                      [VDict (ex_item ''Bread'' (VInt 2))]) = []"
    by code_simp
  note a = invalid_item_recorded [where cat = "VDict ex_prices" and t = "NInt 0" and es = "[]"
      and total_cost = "NFloat (9, 0)" and errors = "[?m]", OF i1 h, unfolded Let_def m1]
  note b = invalid_item_recorded [where cat = "VDict ex_prices" and t = "NInt 0" and es = "[]",
      OF i2 h, unfolded Let_def m2]
  have c1: "compute_sale_cost dec_env ?S (VDict ex_prices) = Inr (NFloat (9, 0), [?m])"
    unfolding a [THEN conjunct2, THEN conjunct2, THEN conjunct1] pre sum.case fst_conv snd_conv
    by (rule post)
  have c2: "cost_items dec_env ?S (VDict ex_prices)
        ([VDict (ex_item ''Bread'' (VInt 1))] @ [VDict (ex_item ''Bread'' (VInt 2))]) (NInt 0, [])
      = Inr (NFloat (9, 0), [])"
    using a [THEN conjunct2, THEN conjunct2, THEN conjunct2, THEN mp, OF c1, THEN conjunct2]
    unfolding ie .
  have c3: "compute_sale_cost dec_env ?U (VDict ex_prices)
      = Inr (NInt 0, [''Invalid item in sale Unknown: Missing product name or quantity''])"
    unfolding b [THEN conjunct2, THEN conjunct2, THEN conjunct1]
    by simp
  show ?thesis
    unfolding s using i1 h c1 c2 c3 by blast
qed

subsection \<open>Products that the catalogue does not list\<close>

text \<open>
  The claim speaks of every non-empty product that is not a key of the catalogue. A product
  that is a non-empty list (or mapping) is non-empty and is no key, yet no message is
  recorded for it: the test \<open>product_name not in price_catalogue\<close> raises \<open>TypeError\<close>
  (the value cannot be hashed), outside the \<open>try\<close> statement. The sale
  \<open>{"id": "S1", "items": [{"product": ["Milk"], "quantity": 2}]}\<close>:
\<close>

theorem unknown_product_counterexample:
  "truthy dec_env (VList [VStr ''Milk''])
   \<and> truthy dec_env (VInt 2)
   \<and> VList [VStr ''Milk''] \<notin> VStr ` fst ` set ex_prices
   \<and> compute_sale_cost dec_env
        (VDict [(''id'', VStr ''S1''),
                (''items'', VList [VDict [(''product'', VList [VStr ''Milk'']),
                                          (''quantity'', VInt 2)]])])
        (VDict ex_prices)
      = Inl TypeError"
proof -
  have k: "VList [VStr ''Milk''] \<notin> VStr ` fst ` set ex_prices"
    by auto
  have r: "compute_sale_cost dec_env
        (VDict [(''id'', VStr ''S1''),
                (''items'', VList [VDict [(''product'', VList [VStr ''Milk'']),
                                          (''quantity'', VInt 2)]])])
        (VDict ex_prices)
      = Inl TypeError"
    by code_simp
  from k r show ?thesis by simp
qed

text \<open>
  Claim C5, for products that can be looked up in a mapping: a string, or a number or
  \<open>True\<close> (which is never a key of a catalogue read from JSON), not a list or a mapping. Let
  a sale have the items \<open>pre\<close>, then a mapping \<open>d\<close> with a truthy (non-empty) such product
  that is not a key of the price catalogue and a truthy quantity, then \<open>post\<close>. Let \<open>msg\<close> be
  \<open>Product '<product>' not found in price catalogue\<close>. Then

  \<^item> the loop body on \<open>d\<close> appends \<open>msg\<close> to the errors and leaves the total as it was, and
    \<open>msg\<close> is all that \<open>d\<close> adds;
  \<^item> \<open>compute_sale_cost\<close> on the sale is the loop over \<open>pre\<close>, then \<open>msg\<close> appended to the
    errors with the total unchanged, then the loop over \<open>post\<close> from that state;
  \<^item> when \<open>compute_sale_cost\<close> returns, its errors are those of \<open>pre\<close>, then \<open>msg\<close>, then
    those of \<open>post\<close>, and its total is the one that the loop computes over \<open>pre\<close> and \<open>post\<close>
    without \<open>d\<close>.
\<close>

theorem unknown_product_recorded:
  assumes "sale_items sale = Some (pre @ VDict d # post)"
    and "map_of d ''product'' = Some pn" and "truthy E pn"
    and "map_of d ''quantity'' = Some q" and "truthy E q"
    and "(case pn of VStr s \<Rightarrow> map_of c s = None | VList xs \<Rightarrow> False | VDict kvs \<Rightarrow> False
          | _ \<Rightarrow> True)"
  shows
    "(let msg = ''Product '' @ [CHR 0x27] @ py_str E pn @ [CHR 0x27]
                @ '' not found in price catalogue''
      in cost_item E sale (VDict c) (VDict d) (t, es) = Inr (t, es @ [msg])
       \<and> item_errors E sale (VDict c) (VDict d) = [msg]
       \<and> compute_sale_cost E sale (VDict c) =
           (case cost_items E sale (VDict c) pre (NInt 0, []) of
              Inl e \<Rightarrow> Inl e
            | Inr st \<Rightarrow> cost_items E sale (VDict c) post (fst st, snd st @ [msg]))
       \<and> (compute_sale_cost E sale (VDict c) = Inr (total_cost, errors) \<longrightarrow>
            errors = concat (map (item_errors E sale (VDict c)) pre) @ [msg]
                       @ concat (map (item_errors E sale (VDict c)) post)
            \<and> cost_items E sale (VDict c) (pre @ post) (NInt 0, [])
                = Inr (total_cost, concat (map (item_errors E sale (VDict c)) pre)
                                     @ concat (map (item_errors E sale (VDict c)) post))))"
proof -
  define msg where "msg = ''Product '' @ [CHR 0x27] @ py_str E pn @ [CHR 0x27]
                @ '' not found in price catalogue''"
  have "py_contains E (VDict c) pn = Inr False"
    using assms(6) by (cases pn) auto
  then have "cost_item E sale (VDict c) (VDict d) (t, es) = Inr (t, es @ [msg_not_found E pn])"
    for t es
    using cost_item_checked [OF assms(2-5)] by simp
  then have step: "cost_item E sale (VDict c) (VDict d) (t, es) = Inr (t, es @ [msg])" for t es
    by (simp add: msg_not_found_def msg_def)
  have one: "item_errors E sale (VDict c) (VDict d) = [msg]"
    using step [of "NInt 0" "[]"] by (simp add: item_errors_def)
  note run = recorded_item_in_sale [OF assms(1) step]
  show ?thesis
    unfolding Let_def msg_def [symmetric]
    using step [of t es] one run(1) run(2) [of total_cost errors] by blast
qed

text \<open>
  The sale \<open>S1\<close> of one loaf, two litres of milk, which the catalogue does not list, and two
  loaves: nine for the loaves and one message.
\<close>

theorem unknown_product_recorded_witness:
  "sale_items (ex_sale ''S1'' [ex_item ''Bread'' (VInt 1), ex_item ''Milk'' (VInt 2),
                               ex_item ''Bread'' (VInt 2)])
     = Some ([VDict (ex_item ''Bread'' (VInt 1))] @ VDict (ex_item ''Milk'' (VInt 2))
               # [VDict (ex_item ''Bread'' (VInt 2))])
   \<and> map_of (ex_item ''Milk'' (VInt 2)) ''product'' = Some (VStr ''Milk'')
   \<and> truthy dec_env (VStr ''Milk'')
   \<and> map_of (ex_item ''Milk'' (VInt 2)) ''quantity'' = Some (VInt 2)
   \<and> truthy dec_env (VInt 2)
   \<and> map_of ex_prices ''Milk'' = None
   \<and> compute_sale_cost dec_env
        (ex_sale ''S1'' [ex_item ''Bread'' (VInt 1), ex_item ''Milk'' (VInt 2),
                         ex_item ''Bread'' (VInt 2)])
        (VDict ex_prices)
      = Inr (NFloat (9, 0), [''Product '' @ [CHR 0x27] @ ''Milk'' @ [CHR 0x27]
                              @ '' not found in price catalogue''])
   \<and> cost_items dec_env
        (ex_sale ''S1'' [ex_item ''Bread'' (VInt 1), ex_item ''Milk'' (VInt 2),
                         ex_item ''Bread'' (VInt 2)])
        (VDict ex_prices)
        ([VDict (ex_item ''Bread'' (VInt 1))] @ [VDict (ex_item ''Bread'' (VInt 2))]) (NInt 0, [])
      = Inr (NFloat (9, 0), [])"
proof -
  let ?S = "ex_sale ''S1'' [ex_item ''Bread'' (VInt 1), ex_item ''Milk'' (VInt 2),
                            ex_item ''Bread'' (VInt 2)]"
  let ?m = "''Product '' @ [CHR 0x27] @ ''Milk'' @ [CHR 0x27] @ '' not found in price catalogue''"
  have i: "sale_items ?S
     = Some ([VDict (ex_item ''Bread'' (VInt 1))] @ VDict (ex_item ''Milk'' (VInt 2))
               # [VDict (ex_item ''Bread'' (VInt 2))])"
    by (simp add: sale_items_def dict_get_def ex_sale_def)
  have h2: "truthy dec_env (VStr ''Milk'')"
    by simp
  have h4: "truthy dec_env (VInt 2)"
    by simp
  have h5: "(case (VStr ''Milk'' :: dec json) of
               VStr s \<Rightarrow> map_of ex_prices s = None
             | VList xs \<Rightarrow> False | VDict kvs \<Rightarrow> False | _ \<Rightarrow> True)"
    by (simp add: ex_prices_entries)
  have m: "''Product '' @ [CHR 0x27] @ py_str dec_env (VStr ''Milk'') @ [CHR 0x27]
             @ '' not found in price catalogue'' = ?m"
    by (simp add: py_str_def)
  have pre: "cost_items dec_env ?S (VDict ex_prices) [VDict (ex_item ''Bread'' (VInt 1))]
               (NInt 0, []) = Inr (NFloat (3, 0), [])"
    by code_simp
  have post: "cost_items dec_env ?S (VDict ex_prices) [VDict (ex_item ''Bread'' (VInt 2))]
               (NFloat (3, 0), [] @ [?m]) = Inr (NFloat (9, 0), [?m])"
    by code_simp
  have ie: "concat (map (item_errors dec_env ?S (VDict ex_prices))
                      [VDict (ex_item ''Bread'' (VInt 1))])
            @ concat (map (item_errors dec_env ?S (VDict ex_prices))
                      [VDict (ex_item ''Bread'' (VInt 2))]) = []"
    by code_simp
  note a = unknown_product_recorded [where t = "NInt 0" and es = "[]"
      and total_cost = "NFloat (9, 0)" and errors = "[?m]",
      OF i ex_item_fields(1) h2 ex_item_fields(2) h4 h5, unfolded Let_def m]
  have c1: "compute_sale_cost dec_env ?S (VDict ex_prices) = Inr (NFloat (9, 0), [?m])"
    unfolding a [THEN conjunct2, THEN conjunct2, THEN conjunct1] pre sum.case fst_conv snd_conv
    by (rule post)
  have c2: "cost_items dec_env ?S (VDict ex_prices)
        ([VDict (ex_item ''Bread'' (VInt 1))] @ [VDict (ex_item ''Bread'' (VInt 2))]) (NInt 0, [])
      = Inr (NFloat (9, 0), [])"
    using a [THEN conjunct2, THEN conjunct2, THEN conjunct2, THEN mp, OF c1, THEN conjunct2]
    unfolding ie .
  show ?thesis
    using i ex_item_fields [of "''Milk''" "VInt 2"] h2 h4 ex_prices_entries(4) c1 c2 by blast
qed

end
